theory Spec2Isabelle
  imports Complex_Main "HOL-Library.Sublist"
begin

section \<open>JavaScript values used by the search pipeline\<close>

text \<open>
  Strings are byte strings (\<open>char list\<close>) holding UTF-8 text. A thrown value is an \<open>Error\<close> object: its
  \<open>name\<close>, its \<open>message\<close> and, for an HTTP client error, \<open>error.response?.status\<close>
  (\<open>None\<close> when there is no response).
\<close>

datatype js_error = JsError (err_name: string) (err_message: string) (err_status: "int option")

text \<open>\<open>new Error(msg)\<close>.\<close>

definition new_Error :: "string \<Rightarrow> js_error" where
  "new_Error msg = JsError ''Error'' msg None"

text \<open>\<open>String(error)\<close>, that is \<open>Error.prototype.toString\<close>.\<close>

definition String_of_error :: "js_error \<Rightarrow> string" where
  "String_of_error e =
     (if err_name e = [] then err_message e
      else if err_message e = [] then err_name e
      else err_name e @ '': '' @ err_message e)"

text \<open>\<open>error && error.message ? error.message : String(error)\<close>, as the controllers write it.\<close>

definition errorMessage :: "js_error \<Rightarrow> string" where
  "errorMessage e = (if err_message e \<noteq> [] then err_message e else String_of_error e)"

text \<open>A value of \<open>process.env\<close> or an optional string in a condition: set and not empty.\<close>

definition truthy :: "string option \<Rightarrow> bool" where
  "truthy v = (case v of None \<Rightarrow> False | Some s \<Rightarrow> s \<noteq> [])"

text \<open>
  The white space and line terminators of ECMAScript, as UTF-8 byte sequences: TAB, LF, VT,
  FF, CR, SP, U+00A0, U+1680, U+2000 to U+200A, U+2028, U+2029, U+202F, U+205F, U+3000
  and U+FEFF.
\<close>

definition white_space :: "string list" where
  "white_space =
     [[CHR 0x09], [CHR 0x0A], [CHR 0x0B], [CHR 0x0C], [CHR 0x0D], [CHR 0x20],
      [CHR 0xC2, CHR 0xA0], [CHR 0xE1, CHR 0x9A, CHR 0x80],
      [CHR 0xE2, CHR 0x80, CHR 0x80], [CHR 0xE2, CHR 0x80, CHR 0x81],
      [CHR 0xE2, CHR 0x80, CHR 0x82], [CHR 0xE2, CHR 0x80, CHR 0x83],
      [CHR 0xE2, CHR 0x80, CHR 0x84], [CHR 0xE2, CHR 0x80, CHR 0x85],
      [CHR 0xE2, CHR 0x80, CHR 0x86], [CHR 0xE2, CHR 0x80, CHR 0x87],
      [CHR 0xE2, CHR 0x80, CHR 0x88], [CHR 0xE2, CHR 0x80, CHR 0x89],
      [CHR 0xE2, CHR 0x80, CHR 0x8A], [CHR 0xE2, CHR 0x80, CHR 0xA8],
      [CHR 0xE2, CHR 0x80, CHR 0xA9], [CHR 0xE2, CHR 0x80, CHR 0xAF],
      [CHR 0xE2, CHR 0x81, CHR 0x9F], [CHR 0xE3, CHR 0x80, CHR 0x80],
      [CHR 0xEF, CHR 0xBB, CHR 0xBF]]"

text \<open>Strips from the front of \<open>s\<close>, repeatedly, any of the byte sequences \<open>ws\<close>.\<close>

function strip_leading :: "string list \<Rightarrow> string \<Rightarrow> string" where
  "strip_leading ws s =
     (case find (\<lambda>w. w \<noteq> [] \<and> prefix w s) ws of
        None \<Rightarrow> s
      | Some w \<Rightarrow> strip_leading ws (drop (length w) s))"
  by pat_completeness auto
termination
proof (relation "measure (\<lambda>(ws, s). length s)")
  show "wf (measure (\<lambda>(ws, s). length s))" by simp
next
  fix ws :: "string list" and s w :: string
  assume "find (\<lambda>w. w \<noteq> [] \<and> prefix w s) ws = Some w"
  then have "w \<noteq> []" "prefix w s" by (auto simp: find_Some_iff)
  then have "s \<noteq> []" "0 < length w" by auto
  then show "((ws, drop (length w) s), (ws, s)) \<in> measure (\<lambda>(ws, s). length s)" by simp
qed

declare strip_leading.simps [simp del]

text \<open>\<open>String.prototype.trim\<close>: white space is stripped from both ends.\<close>

definition trim :: "string \<Rightarrow> string" where
  "trim s = rev (strip_leading (map rev white_space) (rev (strip_leading white_space s)))"

text \<open>\<open>s.includes(t)\<close>: \<open>t\<close> occurs in \<open>s\<close> as a contiguous substring.\<close>

fun includes_str :: "string \<Rightarrow> string \<Rightarrow> bool" where
  "includes_str [] t = (t = [])"
| "includes_str (c # s) t = (prefix t (c # s) \<or> includes_str s t)"

text \<open>A number in a template literal: the decimal digits of an integer.\<close>

definition digit_char :: "nat \<Rightarrow> char" where
  "digit_char d = ''0123456789'' ! d"

function show_nat :: "nat \<Rightarrow> string" where
  "show_nat n = (if n < 10 then [digit_char n] else show_nat (n div 10) @ [digit_char (n mod 10)])"
  by pat_completeness auto
termination
  by (relation "measure id") auto

declare show_nat.simps [simp del]

definition show_int :: "int \<Rightarrow> string" where
  "show_int i = (if i < 0 then CHR ''-'' # show_nat (nat (- i)) else show_nat (nat i))"

section \<open>google\_custom\_search.ts: the credential pool and the key-rotating provider\<close>

type_synonym env = "string \<rightharpoonup> string"

record SearchResult =
  url :: string
  title :: string
  description :: string

text \<open>One element of \<open>response.data.items\<close>; a field is \<open>None\<close> when the item lacks it.\<close>

datatype item = Item (link: "string option") (item_title: "string option") (snippet: "string option")

text \<open>The ten environment variables \<open>getAllApiKeys\<close> reads, in its order.\<close>

definition api_key_names :: "string list" where
  "api_key_names =
     [''GOOGLE_API_KEY'', ''GOOGLE_API_KEY2'', ''GOOGLE_API_KEY3'', ''GOOGLE_API_KEY4'',
      ''GOOGLE_API_KEY5'', ''GOOGLE_API_KEY6'', ''GOOGLE_API_KEY7'', ''GOOGLE_API_KEY8'',
      ''GOOGLE_API_KEY9'', ''GOOGLE_API_KEY10'']"

text \<open>
  \<open>getAllApiKeys\<close>: each variable that is set and not empty is pushed, then the keys
  that are blank after \<open>trim\<close> are filtered out.
\<close>

definition getAllApiKeys :: "env \<Rightarrow> string list" where
  "getAllApiKeys ev =
     filter (\<lambda>k. trim k \<noteq> [])
       (concat (map (\<lambda>n. if truthy (ev n) then [the (ev n)] else []) api_key_names))"

text \<open>
  \<open>getNextApiKey\<close>, with the module-level \<open>currentKeyIndex\<close> passed in and returned.
  \<open>googleApiKeys[currentKeyIndex]\<close> out of range is \<open>undefined\<close>: the key is \<open>None\<close>.
\<close>

definition getNextApiKey :: "string list \<Rightarrow> nat \<Rightarrow> (js_error + string option) \<times> nat" where
  "getNextApiKey googleApiKeys currentKeyIndex =
     (if length googleApiKeys = 0
      then (Inl (new_Error ''No Google API keys found in environment variables!''), currentKeyIndex)
      else (Inr (if currentKeyIndex < length googleApiKeys
                 then Some (googleApiKeys ! currentKeyIndex) else None),
            (currentKeyIndex + 1) mod length googleApiKeys))"

text \<open>The \<open>params\<close> object of one request to the Custom Search API.\<close>

record params =
  key :: string
  cx :: string
  q :: string
  num :: int

text \<open>
  The HTTP client is a parameter: \<open>axios i p\<close> is what the request of loop iteration
  \<open>i\<close> with parameters \<open>p\<close> does, an error or \<open>response.data.items\<close> (\<open>None\<close>
  when the response has no \<open>items\<close>).
\<close>

type_synonym http = "nat \<Rightarrow> params \<Rightarrow> js_error + item list option"

definition to_SearchResult :: "item \<Rightarrow> SearchResult" where
  "to_SearchResult it =
     \<lparr>url = (case link it of Some l \<Rightarrow> l | None \<Rightarrow> []),
      title = (case item_title it of Some t \<Rightarrow> t | None \<Rightarrow> []),
      description = (case snippet it of Some s \<Rightarrow> s | None \<Rightarrow> [])\<rparr>"

text \<open>
  With an \<open>undefined\<close> key, \<open>apiKey.slice(-6)\<close> in the first statement of the
  \<open>try\<close> block raises a TypeError (the message is V8's); no request is sent.
\<close>

definition undefined_key_error :: js_error where
  "undefined_key_error =
     JsError ''TypeError'' ''Cannot read properties of undefined (reading 'slice')'' None"

definition retryable :: "js_error \<Rightarrow> bool" where
  "retryable e = (err_status e = Some 400 \<or> err_status e = Some 403 \<or> err_status e = Some 429)"

text \<open>The error thrown after the loop, from \<open>lastError\<close>.\<close>

definition exhausted_error :: "js_error option \<Rightarrow> js_error" where
  "exhausted_error lastError =
     new_Error (''All Google CSE keys exhausted. Last error code: '' @
       (case lastError of None \<Rightarrow> ''undefined''
        | Some e \<Rightarrow> (case err_status e of None \<Rightarrow> ''undefined'' | Some s \<Rightarrow> show_int s)) @
       '', message: '' @
       (case lastError of None \<Rightarrow> ''Unknown error''
        | Some e \<Rightarrow> if err_message e \<noteq> [] then err_message e else ''Unknown error''))"

text \<open>
  The \<open>for\<close> loop of \<open>googleCustomSearch\<close> from iteration \<open>i\<close> on, for a call that
  runs alone: no other call touches \<open>currentKeyIndex\<close> while this one awaits a request.
  The state is \<open>currentKeyIndex\<close> and \<open>lastError\<close>. The result is what the call returns
  or throws, the index it leaves behind, and the pool positions it selected, in order
  (a ghost trace: the position read by each \<open>getNextApiKey\<close>). The loop beside other
  calls is \<open>googleLoop_shared\<close> below.
\<close>

function googleLoop ::
  "string list \<Rightarrow> string \<Rightarrow> string \<Rightarrow> int \<Rightarrow> http \<Rightarrow> nat \<Rightarrow> nat \<Rightarrow> js_error option
     \<Rightarrow> (js_error + SearchResult list) \<times> nat \<times> nat list" where
  "googleLoop googleApiKeys cseId query num_results axios i currentKeyIndex lastError =
     (if i < length googleApiKeys then
        (case getNextApiKey googleApiKeys currentKeyIndex of
           (Inl e, idx) \<Rightarrow> (Inl e, idx, [])
         | (Inr apiKey, idx) \<Rightarrow>
             (case (case apiKey of
                      None \<Rightarrow> Inl undefined_key_error
                    | Some k \<Rightarrow> axios i \<lparr>key = k, cx = cseId, q = query, num = num_results\<rparr>) of
                Inr items \<Rightarrow>
                  (Inr (map to_SearchResult (case items of None \<Rightarrow> [] | Some its \<Rightarrow> its)),
                   idx, [currentKeyIndex])
              | Inl error \<Rightarrow>
                  if retryable error then
                    (case googleLoop googleApiKeys cseId query num_results axios (i + 1) idx (Some error) of
                       (r, idx', tried) \<Rightarrow> (r, idx', currentKeyIndex # tried))
                  else
                    (Inl (new_Error (''Error calling Google Custom Search: '' @ err_message error)),
                     idx, [currentKeyIndex])))
      else (Inl (exhausted_error lastError), currentKeyIndex, []))"
  by pat_completeness auto
termination
  by (relation "measure (\<lambda>(ks, c, qu, n, ax, i, idx, le). length ks - i)") auto

declare googleLoop.simps [simp del]

text \<open>
  \<open>googleCustomSearch(query, {num_results})\<close>; \<open>num_results\<close> defaults to 5.
\<close>

definition googleCustomSearch ::
  "env \<Rightarrow> http \<Rightarrow> nat \<Rightarrow> string \<Rightarrow> int option
     \<Rightarrow> (js_error + SearchResult list) \<times> nat \<times> nat list" where
  "googleCustomSearch ev axios currentKeyIndex query num_results_opt =
     (let num_results = (case num_results_opt of None \<Rightarrow> 5 | Some n \<Rightarrow> n);
          googleApiKeys = getAllApiKeys ev;
          cseId = ev ''GOOGLE_CSE_ID''
      in if \<not> truthy cseId
         then (Inl (new_Error ''Missing GOOGLE_CSE_ID environment variable.''), currentKeyIndex, [])
         else if length googleApiKeys = 0
         then (Inl (new_Error ''No valid GOOGLE_API_KEY environment variables found.''),
               currentKeyIndex, [])
         else googleLoop googleApiKeys (the cseId) query num_results axios 0 currentKeyIndex None)"

text \<open>
  The same loop beside other calls. \<open>currentKeyIndex\<close> is a module-level variable, and
  the loop reads it anew in each iteration: while this call awaits request \<open>i\<close>, other
  calls in flight may run \<open>getNextApiKey\<close>. \<open>others i idx\<close> is the value they leave in
  the variable during that await, from the value \<open>idx\<close> this call wrote. With an
  undefined key there is no await, the error being raised before the request is sent.
\<close>

function googleLoop_shared ::
  "(nat \<Rightarrow> nat \<Rightarrow> nat) \<Rightarrow> string list \<Rightarrow> string \<Rightarrow> string \<Rightarrow> int \<Rightarrow> http \<Rightarrow> nat \<Rightarrow> nat
     \<Rightarrow> js_error option \<Rightarrow> (js_error + SearchResult list) \<times> nat \<times> nat list" where
  "googleLoop_shared others googleApiKeys cseId query num_results axios i currentKeyIndex lastError =
     (if i < length googleApiKeys then
        (case getNextApiKey googleApiKeys currentKeyIndex of
           (Inl e, idx) \<Rightarrow> (Inl e, idx, [])
         | (Inr apiKey, idx) \<Rightarrow>
             (let resumed = (case apiKey of None \<Rightarrow> idx | Some k \<Rightarrow> others i idx)
              in case (case apiKey of
                         None \<Rightarrow> Inl undefined_key_error
                       | Some k \<Rightarrow> axios i \<lparr>key = k, cx = cseId, q = query, num = num_results\<rparr>) of
                   Inr items \<Rightarrow>
                     (Inr (map to_SearchResult (case items of None \<Rightarrow> [] | Some its \<Rightarrow> its)),
                      resumed, [currentKeyIndex])
                 | Inl error \<Rightarrow>
                     if retryable error then
                       (case googleLoop_shared others googleApiKeys cseId query num_results axios
                               (i + 1) resumed (Some error) of
                          (r, idx', tried) \<Rightarrow> (r, idx', currentKeyIndex # tried))
                     else
                       (Inl (new_Error (''Error calling Google Custom Search: '' @ err_message error)),
                        resumed, [currentKeyIndex])))
      else (Inl (exhausted_error lastError), currentKeyIndex, []))"
  by pat_completeness auto
termination
  by (relation "measure (\<lambda>(ot, ks, c, qu, n, ax, i, idx, le). length ks - i)") auto

declare googleLoop_shared.simps [simp del]

definition googleCustomSearch_shared ::
  "(nat \<Rightarrow> nat \<Rightarrow> nat) \<Rightarrow> env \<Rightarrow> http \<Rightarrow> nat \<Rightarrow> string \<Rightarrow> int option
     \<Rightarrow> (js_error + SearchResult list) \<times> nat \<times> nat list" where
  "googleCustomSearch_shared others ev axios currentKeyIndex query num_results_opt =
     (let num_results = (case num_results_opt of None \<Rightarrow> 5 | Some n \<Rightarrow> n);
          googleApiKeys = getAllApiKeys ev;
          cseId = ev ''GOOGLE_CSE_ID''
      in if \<not> truthy cseId
         then (Inl (new_Error ''Missing GOOGLE_CSE_ID environment variable.''), currentKeyIndex, [])
         else if length googleApiKeys = 0
         then (Inl (new_Error ''No valid GOOGLE_API_KEY environment variables found.''),
               currentKeyIndex, [])
         else googleLoop_shared others googleApiKeys (the cseId) query num_results axios 0
                currentKeyIndex None)"



text \<open>The round-robin order: \<open>tried\<close> lists consecutive pool positions from \<open>a\<close> on.\<close>

definition rot_ok :: "nat \<Rightarrow> nat \<Rightarrow> nat \<Rightarrow> nat list \<Rightarrow> bool" where
  "rot_ok K i a tried =
     (length tried \<le> K - i \<and> tried = map (\<lambda>j. (a + j) mod K) [0..<length tried])"

section \<open>The search resolver (\<open>search\<close>)\<close>

text \<open>
  The argument object of \<open>search\<close>; an optional property is \<open>None\<close> when the caller
  leaves it out, and the destructuring defaults apply then.
\<close>

record search_args =
  query :: string
  advanced :: "bool option"
  num_results :: "int option"
  tbs :: "string option"
  filter_str :: "string option"
  lang :: "string option"
  country :: "string option"
  location :: "string option"
  proxy :: "string option"
  sleep_interval :: "int option"
  timeout :: "int option"

text \<open>The options object passed to \<open>serper_search\<close> and \<open>searchapi_search\<close>.\<close>

record provider_options =
  num_results :: int
  tbs :: "string option"
  filter_str :: "string option"
  lang :: string
  country :: string
  location :: "string option"

text \<open>
  The three other providers are not part of the sources: they are parameters, each
  returning a result list or throwing. \<open>googleSearch\<close> takes its ten positional
  arguments.
\<close>

record providers =
  serper_search :: "string \<Rightarrow> provider_options \<Rightarrow> js_error + SearchResult list"
  searchapi_search :: "string \<Rightarrow> provider_options \<Rightarrow> js_error + SearchResult list"
  googleSearch :: "string \<Rightarrow> bool \<Rightarrow> int \<Rightarrow> string option \<Rightarrow> string option \<Rightarrow> string \<Rightarrow> string
                     \<Rightarrow> string option \<Rightarrow> int \<Rightarrow> int \<Rightarrow> js_error + SearchResult list"

datatype provider = UseGoogleCustomSearch | UseSerper | UseSearchAPI | UseGoogleSearch

text \<open>
  The \<open>try\<close> block of \<open>search\<close>: the chain of \<open>if\<close>s over \<open>process.env\<close>. The result
  is the provider that was called (a ghost value), what it returned or threw, and the
  shared key index afterwards.
\<close>

definition search_try ::
  "env \<Rightarrow> http \<Rightarrow> providers \<Rightarrow> nat \<Rightarrow> search_args
     \<Rightarrow> provider \<times> (js_error + SearchResult list) \<times> nat" where
  "search_try ev axios ps currentKeyIndex a =
     (let advanced = (case search_args.advanced a of None \<Rightarrow> False | Some b \<Rightarrow> b);
          num_results = (case search_args.num_results a of None \<Rightarrow> 5 | Some n \<Rightarrow> n);
          lang = (case search_args.lang a of None \<Rightarrow> ''en'' | Some l \<Rightarrow> l);
          country = (case search_args.country a of None \<Rightarrow> ''us'' | Some c \<Rightarrow> c);
          sleep_interval = (case search_args.sleep_interval a of None \<Rightarrow> 0 | Some n \<Rightarrow> n);
          timeout = (case search_args.timeout a of None \<Rightarrow> 5000 | Some n \<Rightarrow> n);
          opts = \<lparr>provider_options.num_results = num_results,
                  provider_options.tbs = search_args.tbs a,
                  provider_options.filter_str = search_args.filter_str a,
                  provider_options.lang = lang,
                  provider_options.country = country,
                  provider_options.location = search_args.location a\<rparr>
      in if truthy (ev ''GOOGLE_API_KEY'') \<and> truthy (ev ''GOOGLE_CSE_ID'') then
           (case googleCustomSearch ev axios currentKeyIndex (search_args.query a) (Some num_results) of
              (r, idx, tried) \<Rightarrow> (UseGoogleCustomSearch, r, idx))
         else if truthy (ev ''SERPER_API_KEY'') then
           (UseSerper, serper_search ps (search_args.query a) opts, currentKeyIndex)
         else if truthy (ev ''SEARCHAPI_API_KEY'') then
           (UseSearchAPI, searchapi_search ps (search_args.query a) opts, currentKeyIndex)
         else
           (UseGoogleSearch,
            googleSearch ps (search_args.query a) advanced num_results (search_args.tbs a)
              (search_args.filter_str a) lang country (search_args.proxy a) sleep_interval timeout,
            currentKeyIndex))"

text \<open>\<open>search\<close>: the \<open>try\<close> block, and the \<open>catch\<close> that logs and returns \<open>[]\<close>.\<close>

definition search :: "env \<Rightarrow> http \<Rightarrow> providers \<Rightarrow> nat \<Rightarrow> search_args \<Rightarrow> SearchResult list \<times> nat" where
  "search ev axios ps currentKeyIndex a =
     (case search_try ev axios ps currentKeyIndex a of
        (p, Inr results, idx) \<Rightarrow> (results, idx)
      | (p, Inl error, idx) \<Rightarrow> ([], idx))"

text \<open>
  The options object that \<open>search\<close> passes to Serper and SearchAPI, and the result of
  the providers other than the key-rotating one, chosen by \<open>SERPER_API_KEY\<close> and
  \<open>SEARCHAPI_API_KEY\<close>: the second, third and fourth branch of \<open>search\<close>, written
  out for the statements about it.
\<close>

definition search_options :: "search_args \<Rightarrow> provider_options" where
  "search_options a =
     \<lparr>provider_options.num_results = (case search_args.num_results a of None \<Rightarrow> 5 | Some n \<Rightarrow> n),
      provider_options.tbs = search_args.tbs a,
      provider_options.filter_str = search_args.filter_str a,
      provider_options.lang = (case search_args.lang a of None \<Rightarrow> ''en'' | Some l \<Rightarrow> l),
      provider_options.country = (case search_args.country a of None \<Rightarrow> ''us'' | Some c \<Rightarrow> c),
      provider_options.location = search_args.location a\<rparr>"

definition other_provider_result :: "env \<Rightarrow> providers \<Rightarrow> search_args \<Rightarrow> js_error + SearchResult list" where
  "other_provider_result ev ps a =
     (if truthy (ev ''SERPER_API_KEY'') then
        serper_search ps (search_args.query a) (search_options a)
      else if truthy (ev ''SEARCHAPI_API_KEY'') then
        searchapi_search ps (search_args.query a) (search_options a)
      else
        googleSearch ps (search_args.query a)
          (case search_args.advanced a of None \<Rightarrow> False | Some b \<Rightarrow> b)
          (case search_args.num_results a of None \<Rightarrow> 5 | Some n \<Rightarrow> n)
          (search_args.tbs a) (search_args.filter_str a)
          (case search_args.lang a of None \<Rightarrow> ''en'' | Some l \<Rightarrow> l)
          (case search_args.country a of None \<Rightarrow> ''us'' | Some c \<Rightarrow> c)
          (search_args.proxy a)
          (case search_args.sleep_interval a of None \<Rightarrow> 0 | Some n \<Rightarrow> n)
          (case search_args.timeout a of None \<Rightarrow> 5000 | Some n \<Rightarrow> n))"

section \<open>The scrape queue and the documents\<close>

text \<open>
  A v1 \<open>Document\<close>, with the properties the controllers read or write; an optional
  property is \<open>None\<close> when the object does not have it. \<open>metadata\<close> carries the status
  code and the error string.
\<close>

record Metadata =
  statusCode :: int
  error :: "string option"

record Document =
  title :: "string option"
  description :: "string option"
  url :: "string option"
  markdown :: "string option"
  serpResults :: "SearchResult option"
  metadata :: "Metadata option"

text \<open>
  The queue, the job priority and the blocklist are not part of the sources. What the
  queue does for one job is a parameter: the identifier \<open>uuidv4()\<close> returned, and
  whether \<open>addScrapeJob\<close>, \<open>waitForJob\<close> and \<open>getScrapeQueue().remove\<close> return or
  throw (\<open>Inl\<close> the thrown error).
\<close>

record job_env =
  jobId :: string
  added :: "js_error + unit"
  waited :: "js_error + Document"
  removed :: "js_error + unit"

text \<open>
  The calls a request issues to its collaborators, in program order: the resolver call with
  its arguments, the queue calls with the job identifier, the billing and logging calls
  with their counts.
\<close>

datatype effect =
    SearchCall search_args
  | AddScrapeJob string string int
  | WaitForJob string int
  | RemoveJob string
  | BillTeam nat
  | LogJob nat

text \<open>
  The collaborators of a request: the resolver as a function of its arguments, the
  blocklist predicate and its message constant, \<open>getJobPriority\<close> for the \<open>i\<close>-th call
  of the request, the queue's behaviour for the \<open>i\<close>-th job, and for the \<open>n\<close>-th
  \<open>Promise.all\<close> of the request the choice of the rejection that settles first.
\<close>

record world =
  search_fn :: "search_args \<Rightarrow> SearchResult list"
  isUrlBlocked :: "string \<Rightarrow> bool"
  BLOCKLISTED_URL_MESSAGE :: string
  getJobPriority :: "nat \<Rightarrow> js_error + int"
  jobs :: "nat \<Rightarrow> job_env"
  race :: "nat \<Rightarrow> nat list \<Rightarrow> nat"

text \<open>
  \<open>Promise.all\<close>: the values in order when every promise fulfils; otherwise it rejects
  with the rejection that settles first in time. Which of the rejected promises that is,
  is not determined by the program: \<open>first\<close> chooses among their positions.
\<close>

definition rejected :: "(js_error + 'a) list \<Rightarrow> nat list" where
  "rejected ps = filter (\<lambda>i. isl (ps ! i)) [0..<length ps]"

definition promise_all :: "(nat list \<Rightarrow> nat) \<Rightarrow> (js_error + 'a) list \<Rightarrow> js_error + 'a list" where
  "promise_all first ps =
     (let rej = rejected ps
      in if rej = [] then Inr (map projr ps)
         else Inl (projl (ps ! (rej ! (first rej mod length rej)))))"

text \<open>\<open>xs.slice(0, n)\<close> for an integer \<open>n\<close>; a negative \<open>n\<close> counts from the end.\<close>

definition slice0 :: "'a list \<Rightarrow> int \<Rightarrow> 'a list" where
  "slice0 xs n = (if n < 0 then take (length xs - nat (- n)) xs else take (nat n) xs)"

text \<open>
  \<open>Math.floor(limit * 1.5)\<close>, on an integer \<open>limit\<close>, as the floor of the real
  product. The code multiplies in double precision: the two agree where the product
  \<open>3 * limit / 2\<close> is a double, which holds for \<open>\<bar>limit\<bar> < 2^51\<close> (the product is then a
  multiple of one half below \<open>2^52\<close>) and fails for larger odd limits. A limit that is
  not an integer is outside the model.
\<close>

definition num_results_buffer :: "int \<Rightarrow> int" where
  "num_results_buffer limit = \<lfloor>real_of_int limit * 1.5\<rfloor>"

text \<open>\<open>if (results.length > limit) results = results.slice(0, limit)\<close>.\<close>

definition limit_results :: "SearchResult list \<Rightarrow> int \<Rightarrow> SearchResult list" where
  "limit_results results limit =
     (if int (length results) > limit then slice0 results limit else results)"

text \<open>The test both controllers apply to a caught error's message.\<close>

definition is_timeout_message :: "string \<Rightarrow> bool" where
  "is_timeout_message msg = (prefix ''Job wait'' msg \<or> msg = ''timeout'')"

section \<open>controllers/v1/search.ts\<close>

text \<open>The document of the \<open>catch\<close> block of \<open>scrapeSearchResult\<close>.\<close>

definition error_document :: "SearchResult \<Rightarrow> js_error \<Rightarrow> Document" where
  "error_document searchResult err =
     (let msg = errorMessage err;
          code = (if includes_str msg ''Could not scrape url'' then 403 else 0)
      in \<lparr>Document.title = Some (SearchResult.title searchResult),
          Document.description = Some (SearchResult.description searchResult),
          Document.url = Some (SearchResult.url searchResult),
          markdown = None,
          serpResults = None,
          metadata = Some \<lparr>statusCode = code, Metadata.error = Some msg\<rparr>\<rparr>)"

text \<open>
  \<open>{title: searchResult.title, description: searchResult.description,
  url: searchResult.url, ...doc}\<close>: the spread comes last, so a property that \<open>doc\<close>
  has replaces the one written before it.
\<close>

definition merge_document :: "SearchResult \<Rightarrow> Document \<Rightarrow> Document" where
  "merge_document searchResult doc =
     \<lparr>Document.title = (case Document.title doc of Some t \<Rightarrow> Some t
                          | None \<Rightarrow> Some (SearchResult.title searchResult)),
      Document.description = (case Document.description doc of Some d \<Rightarrow> Some d
                          | None \<Rightarrow> Some (SearchResult.description searchResult)),
      Document.url = (case Document.url doc of Some u \<Rightarrow> Some u
                          | None \<Rightarrow> Some (SearchResult.url searchResult)),
      markdown = markdown doc,
      serpResults = serpResults doc,
      metadata = metadata doc\<rparr>"

text \<open>The \<open>try\<close> block of \<open>scrapeSearchResult\<close>, with the calls it issued.\<close>

definition scrapeSearchResult_try ::
  "(string \<Rightarrow> bool) \<Rightarrow> string \<Rightarrow> job_env \<Rightarrow> int \<Rightarrow> SearchResult \<Rightarrow> int
     \<Rightarrow> (js_error + Document) \<times> effect list" where
  "scrapeSearchResult_try blocked blockMsg je jobPriority searchResult tmo =
     (let u = SearchResult.url searchResult;
          add = AddScrapeJob (jobId je) u jobPriority;
          wait = WaitForJob (jobId je) tmo;
          rem = RemoveJob (jobId je)
      in if blocked u then (Inl (new_Error (''Could not scrape url: '' @ blockMsg)), [])
         else (case added je of
                 Inl e \<Rightarrow> (Inl e, [add])
               | Inr ok \<Rightarrow>
                   (case waited je of
                      Inl e \<Rightarrow> (Inl e, [add, wait])
                    | Inr doc \<Rightarrow>
                        (case removed je of
                           Inl e \<Rightarrow> (Inl e, [add, wait, rem])
                         | Inr ok' \<Rightarrow> (Inr (merge_document searchResult doc), [add, wait, rem])))))"

text \<open>
  \<open>scrapeSearchResult\<close>: \<open>getJobPriority\<close> is awaited before the \<open>try\<close>, so its error
  rejects the promise; every error of the \<open>try\<close> block becomes an error document.
\<close>

definition scrapeSearchResult ::
  "(string \<Rightarrow> bool) \<Rightarrow> string \<Rightarrow> (js_error + int) \<Rightarrow> job_env \<Rightarrow> SearchResult \<Rightarrow> int
     \<Rightarrow> (js_error + Document) \<times> effect list" where
  "scrapeSearchResult blocked blockMsg priority je searchResult tmo =
     (case priority of
        Inl e \<Rightarrow> (Inl e, [])
      | Inr jobPriority \<Rightarrow>
          (case scrapeSearchResult_try blocked blockMsg je jobPriority searchResult tmo of
             (Inr doc, effs) \<Rightarrow> (Inr doc, effs)
           | (Inl err, effs) \<Rightarrow> (Inr (error_document searchResult err), effs)))"

record ScrapeOptions =
  formats :: "string list option"

record SearchRequest =
  query :: string
  limit :: int
  tbs :: "string option"
  filter_str :: "string option"
  lang :: "string option"
  country :: "string option"
  location :: "string option"
  origin :: string
  timeout :: int
  scrapeOptions :: ScrapeOptions

record SearchResponse =
  success :: bool
  data :: "Document list option"
  warning :: "string option"
  error :: "string option"

text \<open>The \<open>catch\<close> block of the v1 controller.\<close>

definition v1_catch :: "js_error \<Rightarrow> int \<times> SearchResponse" where
  "v1_catch err =
     (let msg = errorMessage err
      in if is_timeout_message msg
         then (408, \<lparr>success = False, data = None, warning = None,
                     SearchResponse.error = Some ''Request timed out''\<rparr>)
         else (500, \<lparr>success = False, data = None, warning = None,
                     SearchResponse.error = Some msg\<rparr>))"

text \<open>The arguments of the resolver call of the v1 controller.\<close>

definition v1_search_args :: "SearchRequest \<Rightarrow> search_args" where
  "v1_search_args body =
     \<lparr>search_args.query = SearchRequest.query body,
      advanced = Some False,
      search_args.num_results = Some (num_results_buffer (limit body)),
      search_args.tbs = SearchRequest.tbs body,
      search_args.filter_str = SearchRequest.filter_str body,
      search_args.lang = SearchRequest.lang body,
      search_args.country = SearchRequest.country body,
      search_args.location = SearchRequest.location body,
      proxy = None, sleep_interval = None, search_args.timeout = None\<rparr>"

text \<open>The search results after \<open>slice\<close>, which both v1 paths work on.\<close>

definition v1_results :: "world \<Rightarrow> SearchRequest \<Rightarrow> SearchResult list" where
  "v1_results w body = limit_results (search_fn w (v1_search_args body)) (limit body)"

text \<open>\<open>searchResults.map((result) => scrapeSearchResult(result, ...))\<close>, settled.\<close>

definition scrape_all ::
  "world \<Rightarrow> int \<Rightarrow> SearchResult list \<Rightarrow> ((js_error + Document) \<times> effect list) list" where
  "scrape_all w tmo results =
     map (\<lambda>(i, r). scrapeSearchResult (isUrlBlocked w) (BLOCKLISTED_URL_MESSAGE w)
                      (getJobPriority w i) (jobs w i) r tmo)
       (enumerate 0 results)"

text \<open>\<open>doc.serpResults || (doc.markdown && doc.markdown.trim().length > 0)\<close>.\<close>

definition has_content :: "Document \<Rightarrow> bool" where
  "has_content doc =
     (serpResults doc \<noteq> None \<or>
      (truthy (markdown doc) \<and> length (trim (the (markdown doc))) > 0))"

definition serp_document :: "SearchResult \<Rightarrow> Document" where
  "serp_document r =
     \<lparr>Document.title = Some (SearchResult.title r),
      Document.description = Some (SearchResult.description r),
      Document.url = Some (SearchResult.url r),
      markdown = None, serpResults = None, metadata = None\<rparr>"

text \<open>
  \<open>searchController\<close> (v1). The request body is given as \<open>searchRequestSchema.parse\<close>
  returned it, or as the error it threw. The calls of the scrape tasks, which run
  concurrently, are listed task after task; all of them are issued also when
  \<open>Promise.all\<close> rejects.
\<close>

definition searchController ::
  "world \<Rightarrow> (js_error + SearchRequest) \<Rightarrow> (int \<times> SearchResponse) \<times> effect list" where
  "searchController w parsed =
     (case parsed of
        Inl e \<Rightarrow> (v1_catch e, [])
      | Inr body \<Rightarrow>
          (let call = SearchCall (v1_search_args body);
               searchResults = v1_results w body
           in if length searchResults = 0 then
                ((200, \<lparr>success = True, data = Some [],
                        warning = Some ''No search results found'',
                        SearchResponse.error = None\<rparr>), [call])
              else if (case formats (scrapeOptions body) of None \<Rightarrow> True | Some fs \<Rightarrow> length fs = 0) then
                ((200, \<lparr>success = True, data = Some (map serp_document searchResults),
                        warning = None, SearchResponse.error = None\<rparr>),
                 [call, BillTeam (length searchResults)])
              else
                (let outs = scrape_all w (SearchRequest.timeout body) searchResults;
                     effs = concat (map snd outs)
                 in case promise_all (race w 0) (map fst outs) of
                      Inl e \<Rightarrow> (v1_catch e, call # effs)
                    | Inr docs \<Rightarrow>
                        (let filteredDocs = filter has_content docs
                         in if length filteredDocs = 0 then
                              ((200, \<lparr>success = True, data = Some docs,
                                      warning = Some ''No content found in search results'',
                                      SearchResponse.error = None\<rparr>),
                               call # effs @ [BillTeam (length docs)])
                            else
                              ((200, \<lparr>success = True, data = Some filteredDocs,
                                      warning = None, SearchResponse.error = None\<rparr>),
                               call # effs @ [BillTeam (length docs), LogJob (length filteredDocs)])))))"

section \<open>The legacy (v0) search controller\<close>

record SearchOptions =
  limit :: "int option"
  tbs :: "string option"
  filter_str :: "string option"
  lang :: "string option"
  country :: "string option"
  location :: "string option"

record PageOptions =
  fetchPageContent :: "bool option"

text \<open>
  A legacy document as \<open>toLegacyDocument\<close> returns it; the helper reads \<open>content\<close>.
  \<open>toLegacyDocument\<close> is not part of the sources and is a parameter; its result is
  \<open>None\<close> when it is \<open>null\<close> or \<open>undefined\<close>.
\<close>

record LegacyDocument =
  content :: "string option"

datatype v0_data = SerpData "SearchResult list" | DocData "LegacyDocument option list"

record helper_result =
  success :: bool
  error :: "string option"
  data :: "v0_data option"
  returnCode :: int

text \<open>The \<open>for\<close> loop that enqueues the jobs one after the other, from job \<open>i\<close> on.\<close>

fun enqueue :: "(nat \<Rightarrow> job_env) \<Rightarrow> int \<Rightarrow> nat \<Rightarrow> SearchResult list \<Rightarrow> (js_error + unit) \<times> effect list" where
  "enqueue js priority i [] = (Inr (), [])"
| "enqueue js priority i (r # rs) =
     (case added (js i) of
        Inl e \<Rightarrow> (Inl e, [AddScrapeJob (jobId (js i)) (SearchResult.url r) priority])
      | Inr ok \<Rightarrow>
          (case enqueue js priority (Suc i) rs of
             (res, effs) \<Rightarrow> (res, AddScrapeJob (jobId (js i)) (SearchResult.url r) priority # effs)))"

text \<open>\<open>num_results\<close> of the helper: the limit (7 when absent) capped at 10, or 1 for one team.\<close>

definition v0_num_results :: "string \<Rightarrow> SearchOptions \<Rightarrow> int" where
  "v0_num_results team_id searchOptions =
     (if team_id = ''d97c4ceb-290b-4957-8432-2b2a02727d95'' then 1
      else min (case SearchOptions.limit searchOptions of None \<Rightarrow> 7 | Some l \<Rightarrow> l) 10)"

definition v0_search_args :: "string \<Rightarrow> string \<Rightarrow> SearchOptions \<Rightarrow> search_args" where
  "v0_search_args qry team_id searchOptions =
     \<lparr>search_args.query = qry,
      advanced = Some False,
      search_args.num_results = Some (num_results_buffer (v0_num_results team_id searchOptions)),
      search_args.tbs = SearchOptions.tbs searchOptions,
      search_args.filter_str = SearchOptions.filter_str searchOptions,
      search_args.lang = Some (case SearchOptions.lang searchOptions of None \<Rightarrow> ''en'' | Some l \<Rightarrow> l),
      search_args.country =
        Some (case SearchOptions.country searchOptions of None \<Rightarrow> ''us'' | Some c \<Rightarrow> c),
      search_args.location = SearchOptions.location searchOptions,
      proxy = None, sleep_interval = None, search_args.timeout = None\<rparr>"

text \<open>\<open>doc && doc.content && doc.content.trim().length > 0\<close>.\<close>

definition has_legacy_content :: "LegacyDocument option \<Rightarrow> bool" where
  "has_legacy_content d =
     (case d of None \<Rightarrow> False
      | Some doc \<Rightarrow> truthy (content doc) \<and> length (trim (the (content doc))) > 0)"

text \<open>The results the helper scrapes: blocked URLs filtered out, then the slice.\<close>

definition v0_results :: "world \<Rightarrow> string \<Rightarrow> string \<Rightarrow> SearchOptions \<Rightarrow> SearchResult list" where
  "v0_results w qry team_id searchOptions =
     limit_results
       (filter (\<lambda>r. \<not> isUrlBlocked w (SearchResult.url r))
          (search_fn w (v0_search_args qry team_id searchOptions)))
       (v0_num_results team_id searchOptions)"

text \<open>
  \<open>searchHelper\<close>. \<open>Inl\<close> is an error that leaves the helper and reaches the
  controller's \<open>catch\<close>.
\<close>

definition searchHelper ::
  "world \<Rightarrow> (Document \<Rightarrow> LegacyDocument option) \<Rightarrow> string option \<Rightarrow> string \<Rightarrow> PageOptions
     \<Rightarrow> SearchOptions \<Rightarrow> (js_error + helper_result) \<times> effect list" where
  "searchHelper w toLegacyDocument qry team_id pageOptions searchOptions =
     (if \<not> truthy qry then
        (Inr \<lparr>success = False, helper_result.error = Some ''Query is required'',
              data = None, returnCode = 400\<rparr>, [])
      else
        (let call = SearchCall (v0_search_args (the qry) team_id searchOptions);
             res0 = search_fn w (v0_search_args (the qry) team_id searchOptions);
             justSearch = (fetchPageContent pageOptions = Some False)
         in if justSearch then
              (Inr \<lparr>success = True, helper_result.error = None,
                    data = Some (SerpData res0), returnCode = 200\<rparr>,
               [call, BillTeam (length res0)])
            else
              (let res = v0_results w (the qry) team_id searchOptions
               in if length res = 0 then
                    (Inr \<lparr>success = True, helper_result.error = Some ''No search results found'',
                          data = None, returnCode = 200\<rparr>, [call])
                  else
                    (case getJobPriority w 0 of
                       Inl e \<Rightarrow> (Inl e, [call])
                     | Inr jobPriority \<Rightarrow>
                         (case enqueue (jobs w) jobPriority 0 res of
                            (Inl e, adds) \<Rightarrow> (Inl e, call # adds)
                          | (Inr ok, adds) \<Rightarrow>
                              (let ids = [0..<length res];
                                   waits = map (\<lambda>i. WaitForJob (jobId (jobs w i)) 60000) ids;
                                   rems = map (\<lambda>i. RemoveJob (jobId (jobs w i))) ids
                               in case promise_all (race w 0) (map (\<lambda>i. waited (jobs w i)) ids) of
                                    Inl e \<Rightarrow> (Inl e, call # adds @ waits)
                                  | Inr ds \<Rightarrow>
                                      (let docs = map toLegacyDocument ds
                                       in if length docs = 0 then
                                            (Inr \<lparr>success = True,
                                                  helper_result.error = Some ''No search results found'',
                                                  data = None, returnCode = 200\<rparr>,
                                             call # adds @ waits)
                                          else
                                            (case promise_all (race w 1) (map (\<lambda>i. removed (jobs w i)) ids) of
                                               Inl e \<Rightarrow> (Inl e, call # adds @ waits @ rems)
                                             | Inr oks \<Rightarrow>
                                                 (let filteredDocs = filter has_legacy_content docs
                                                  in if length filteredDocs = 0 then
                                                       (Inr \<lparr>success = True,
                                                             helper_result.error = Some ''No page found'',
                                                             data = Some (DocData docs), returnCode = 200\<rparr>,
                                                        call # adds @ waits @ rems)
                                                     else
                                                       (Inr \<lparr>success = True, helper_result.error = None,
                                                             data = Some (DocData filteredDocs),
                                                             returnCode = 200\<rparr>,
                                                        call # adds @ waits @ rems))))))))))"

text \<open>
  The body of a v0 request, what \<open>authenticateUser\<close> and \<open>checkTeamCredits\<close> return
  (or throw), and the response: a status with either \<open>{error: ...}\<close> or the helper's result.
\<close>

record v0_request =
  query :: "string option"
  pageOptions :: "PageOptions option"
  searchOptions :: "SearchOptions option"

datatype auth_result = AuthFailed int string | AuthOk string

datatype v0_body = ErrorBody string | ResultBody helper_result

definition v0_catch :: "js_error \<Rightarrow> int \<times> v0_body" where
  "v0_catch err =
     (let msg = errorMessage err
      in if is_timeout_message msg then (408, ErrorBody ''Request timed out'')
         else (500, ErrorBody msg))"

definition v0_num_docs :: "helper_result \<Rightarrow> nat" where
  "v0_num_docs r =
     (case helper_result.data r of None \<Rightarrow> 0
      | Some (SerpData rs) \<Rightarrow> length rs
      | Some (DocData ds) \<Rightarrow> length ds)"

text \<open>\<open>searchController\<close> of the legacy endpoint.\<close>

definition searchController_v0 ::
  "world \<Rightarrow> (Document \<Rightarrow> LegacyDocument option) \<Rightarrow> (js_error + auth_result) \<Rightarrow> (js_error + bool)
     \<Rightarrow> v0_request \<Rightarrow> (int \<times> v0_body) \<times> effect list" where
  "searchController_v0 w toLegacyDocument auth credits body =
     (case auth of
        Inl e \<Rightarrow> (v0_catch e, [])
      | Inr (AuthFailed status msg) \<Rightarrow> ((status, ErrorBody msg), [])
      | Inr (AuthOk team_id) \<Rightarrow>
          (let pageOpts = (case pageOptions body of
                             None \<Rightarrow> \<lparr>fetchPageContent = Some True\<rparr> | Some po \<Rightarrow> po);
               searchOpts = (case searchOptions body of
                               None \<Rightarrow> \<lparr>SearchOptions.limit = Some 5, SearchOptions.tbs = None,
                                        SearchOptions.filter_str = None, SearchOptions.lang = None,
                                        SearchOptions.country = None, SearchOptions.location = None\<rparr>
                             | Some so \<Rightarrow> so)
           in case credits of
                Inl e \<Rightarrow> ((500, ErrorBody ''Internal server error''), [])
              | Inr False \<Rightarrow> ((402, ErrorBody ''Insufficient credits''), [])
              | Inr True \<Rightarrow>
                  (case searchHelper w toLegacyDocument (v0_request.query body) team_id pageOpts searchOpts of
                     (Inl e, effs) \<Rightarrow> (v0_catch e, effs)
                   | (Inr result, effs) \<Rightarrow>
                       ((returnCode result, ResultBody result), effs @ [LogJob (v0_num_docs result)]))))"

section \<open>Concrete inputs\<close>

text \<open>An environment with two keys (the second in \<open>GOOGLE_API_KEY3\<close>) and a search engine id.\<close>

definition ev2 :: env where
  "ev2 = [''GOOGLE_API_KEY'' \<mapsto> ''k1'', ''GOOGLE_API_KEY3'' \<mapsto> ''k3'', ''GOOGLE_CSE_ID'' \<mapsto> ''cx'']"

text \<open>An environment with numbered keys only, and the Serper key.\<close>

definition ev_numbered :: env where
  "ev_numbered = [''GOOGLE_API_KEY2'' \<mapsto> ''k2'', ''GOOGLE_API_KEY10'' \<mapsto> ''k10'',
                  ''GOOGLE_CSE_ID'' \<mapsto> ''cx'', ''SERPER_API_KEY'' \<mapsto> ''s'']"

text \<open>Three HTTP behaviours: every key is refused; a 429 and then a 500; a 400 and then a result.\<close>

definition ax_exhaust :: http where
  "ax_exhaust i p = (if key p = ''k3'' then Inl (JsError ''AxiosError'' ''quota exceeded'' (Some 429))
                     else Inl (JsError ''AxiosError'' ''forbidden'' (Some 403)))"


definition ax_ok :: http where
  "ax_ok i p = (if i = 0 then Inl (JsError ''AxiosError'' ''bad request'' (Some 400))
                else Inr (Some [Item (Some ''https://a.example'') (Some ''A'') None]))"

definition no_providers :: providers where
  "no_providers =
     \<lparr>serper_search = (\<lambda>qu opts. Inr []),
      searchapi_search = (\<lambda>qu opts. Inr []),
      googleSearch = (\<lambda>qu adv n t f l c p s tm. Inr [])\<rparr>"

text \<open>Providers that answer with different results, to tell them apart.\<close>

definition tagged_providers :: providers where
  "tagged_providers =
     \<lparr>serper_search = (\<lambda>qu opts. Inr [\<lparr>SearchResult.url = ''https://serper.example'', SearchResult.title = ''S'',
           SearchResult.description = []\<rparr>]),
      searchapi_search = (\<lambda>qu opts. Inr [\<lparr>SearchResult.url = ''https://searchapi.example'', SearchResult.title = ''T'',
           SearchResult.description = []\<rparr>]),
      googleSearch = (\<lambda>qu adv n t f l c p s tm.
                        Inr [\<lparr>SearchResult.url = ''https://google.example'', SearchResult.title = ''G'',
           SearchResult.description = []\<rparr>])\<rparr>"

text \<open>
  Another call in flight on the pool of \<open>ev2\<close> that runs \<open>getNextApiKey\<close> once while
  this call awaits a request.
\<close>

definition one_other_call :: "nat \<Rightarrow> nat \<Rightarrow> nat" where
  "one_other_call i idx = snd (getNextApiKey (getAllApiKeys ev2) idx)"

definition args_q :: search_args where
  "args_q = \<lparr>search_args.query = ''q'', advanced = None, search_args.num_results = None,
             search_args.tbs = None, search_args.filter_str = None, search_args.lang = None,
             search_args.country = None, search_args.location = None, proxy = None,
             sleep_interval = None, search_args.timeout = None\<rparr>"

text \<open>Search results, a scraped document, and the queue's behaviour for a job.\<close>

definition sr_a :: SearchResult where
  "sr_a = \<lparr>SearchResult.url = ''https://a.example'', SearchResult.title = ''Serp title'',
           SearchResult.description = ''Serp description''\<rparr>"

definition sr_b :: SearchResult where
  "sr_b = \<lparr>SearchResult.url = ''https://b.example'', SearchResult.title = ''B'',
           SearchResult.description = ''b''\<rparr>"

definition sr_c :: SearchResult where
  "sr_c = \<lparr>SearchResult.url = ''https://c.example'', SearchResult.title = ''C'',
           SearchResult.description = ''c''\<rparr>"

definition doc_scraped :: Document where
  "doc_scraped =
     \<lparr>Document.title = Some ''Page title'', Document.description = Some ''Page description'',
      Document.url = None, markdown = Some ''# Page'', serpResults = None,
      metadata = Some \<lparr>statusCode = 200, Metadata.error = None\<rparr>\<rparr>"

definition job_ok :: job_env where
  "job_ok = \<lparr>jobId = ''job-0'', added = Inr (), waited = Inr doc_scraped, removed = Inr ()\<rparr>"

definition job_timeout :: job_env where
  "job_timeout =
     \<lparr>jobId = ''job-0'', added = Inr (), waited = Inl (new_Error ''Job wait ''), removed = Inr ()\<rparr>"

text \<open>
  Worlds: one result whose job times out; one result whose job completes; one result
  whose URL is blocked; three results.
\<close>

definition world_timeout :: world where
  "world_timeout =
     \<lparr>search_fn = (\<lambda>a. [sr_a]), isUrlBlocked = (\<lambda>u. False), BLOCKLISTED_URL_MESSAGE = ''blocked'',
      getJobPriority = (\<lambda>i. Inr 10), jobs = (\<lambda>i. job_timeout), race = (\<lambda>n rej. 0)\<rparr>"

definition world_ok :: world where
  "world_ok =
     \<lparr>search_fn = (\<lambda>a. [sr_a]), isUrlBlocked = (\<lambda>u. False), BLOCKLISTED_URL_MESSAGE = ''blocked'',
      getJobPriority = (\<lambda>i. Inr 10), jobs = (\<lambda>i. job_ok), race = (\<lambda>n rej. 0)\<rparr>"

definition world_blocked :: world where
  "world_blocked =
     \<lparr>search_fn = (\<lambda>a. [sr_a]), isUrlBlocked = (\<lambda>u. u = ''https://a.example''),
      BLOCKLISTED_URL_MESSAGE = ''blocked'',
      getJobPriority = (\<lambda>i. Inr 10), jobs = (\<lambda>i. job_ok), race = (\<lambda>n rej. 0)\<rparr>"

definition world_three :: world where
  "world_three =
     \<lparr>search_fn = (\<lambda>a. [sr_a, sr_b, sr_c]), isUrlBlocked = (\<lambda>u. False),
      BLOCKLISTED_URL_MESSAGE = ''blocked'',
      getJobPriority = (\<lambda>i. Inr 10), jobs = (\<lambda>i. job_ok), race = (\<lambda>n rej. 0)\<rparr>"

definition legacy_of :: "Document \<Rightarrow> LegacyDocument option" where
  "legacy_of d = Some \<lparr>content = markdown d\<rparr>"

text \<open>Requests: a v1 request for scraped markdown, and v0 request bodies.\<close>

definition request_v1 :: "int \<Rightarrow> string list option \<Rightarrow> SearchRequest" where
  "request_v1 l fs =
     \<lparr>SearchRequest.query = ''q'', SearchRequest.limit = l, SearchRequest.tbs = None,
      SearchRequest.filter_str = None, SearchRequest.lang = None, SearchRequest.country = None,
      SearchRequest.location = None, origin = ''api'', SearchRequest.timeout = 60000,
      scrapeOptions = \<lparr>formats = fs\<rparr>\<rparr>"

definition options_v0 :: "int option \<Rightarrow> SearchOptions" where
  "options_v0 l =
     \<lparr>SearchOptions.limit = l, SearchOptions.tbs = None, SearchOptions.filter_str = None,
      SearchOptions.lang = None, SearchOptions.country = None, SearchOptions.location = None\<rparr>"

definition request_v0 :: v0_request where
  "request_v0 = \<lparr>v0_request.query = Some ''q'', pageOptions = None, searchOptions = None\<rparr>"

section \<open>Properties of the key rotation\<close>

lemma rot_inj:
  fixes a :: nat
  assumes "j < K" "j' < K" "(a + j) mod K = (a + j') mod K"
  shows "j = j'"
proof -
  have aux: "x = y" if "x \<le> y" "y < K" "(a + x) mod K = (a + y) mod K" for x y :: nat
  proof -
    from that have "K dvd (a + y) - (a + x)"
      by (metis add_le_cancel_left mod_eq_dvd_iff_nat)
    then have "K dvd y - x" by simp
    moreover have "y - x < K" using that by simp
    ultimately have "y - x = 0" using dvd_imp_le by fastforce
    with that show ?thesis by simp
  qed
  show ?thesis
  proof (cases "j \<le> j'")
    case True
    with assms aux show ?thesis by blast
  next
    case False
    then have "j' \<le> j" by simp
    with assms aux [of j' j] show ?thesis by simp
  qed
qed

lemma rot_distinct:
  "m \<le> K \<Longrightarrow> distinct (map (\<lambda>j. (a + j) mod K) [0..<m])"
proof -
  assume m: "m \<le> K"
  have "inj_on (\<lambda>j. (a + j) mod K) (set [0..<m])"
  proof (rule inj_onI)
    fix x y assume "x \<in> set [0..<m]" "y \<in> set [0..<m]" "(a + x) mod K = (a + y) mod K"
    with m show "x = y" using rot_inj [of x K y a] by simp
  qed
  then show ?thesis by (simp add: distinct_map)
qed

lemma rot_Cons:
  "a < K \<Longrightarrow> a # map (\<lambda>j. ((a + 1) mod K + j) mod K) [0..<m] = map (\<lambda>j. (a + j) mod K) [0..<Suc m]"
proof -
  assume a: "a < K"
  have "map (\<lambda>j. (a + j) mod K) [0..<Suc m] = (a + 0) mod K # map (\<lambda>j. (a + Suc j) mod K) [0..<m]"
    by (simp only: map_upt_Suc)
  also have "\<dots> = a # map (\<lambda>j. ((a + 1) mod K + j) mod K) [0..<m]"
    using a by (simp add: mod_add_left_eq)
  finally show ?thesis by simp
qed

lemma loop_trace:
  "idx < length ks \<Longrightarrow> rot_ok (length ks) i idx (snd (snd (googleLoop ks c qu n ax i idx le)))"
proof (induction ks c qu n ax i idx le rule: googleLoop.induct)
  case (1 ks c qu n ax i idx le)
  let ?K = "length ks"
  let ?p = "\<lparr>key = ks ! idx, cx = c, q = qu, num = n\<rparr>"
  show ?case
  proof (cases "i < ?K")
    case False
    then show ?thesis by (simp add: googleLoop.simps rot_ok_def)
  next
    case True
    have nk: "getNextApiKey ks idx = (Inr (Some (ks ! idx)), (idx + 1) mod ?K)"
      using "1.prems" by (auto simp: getNextApiKey_def)
    have one: "rot_ok ?K i idx [idx]"
      using True "1.prems" by (simp add: rot_ok_def)
    show ?thesis
    proof (cases "ax i ?p")
      case (Inr items)
      with True nk one show ?thesis by (simp add: googleLoop.simps)
    next
      case (Inl e)
      show ?thesis
      proof (cases "retryable e")
        case False
        with True nk one Inl show ?thesis by (simp add: googleLoop.simps)
      next
        case r: True
        let ?rec = "googleLoop ks c qu n ax (i + 1) ((idx + 1) mod ?K) (Some e)"
        have "0 < ?K" using "1.prems" by auto
        then have lt: "(idx + 1) mod ?K < ?K" by simp
        have ih: "rot_ok ?K (i + 1) ((idx + 1) mod ?K) (snd (snd ?rec))"
          using "1.IH" [of "Inr (Some (ks ! idx))" "(idx + 1) mod ?K" "Some (ks ! idx)" e]
            True nk Inl r lt by simp
        have eq: "snd (snd (googleLoop ks c qu n ax i idx le)) = idx # snd (snd ?rec)"
          using True nk Inl r by (subst googleLoop.simps) (simp split: prod.splits)
        show ?thesis unfolding eq using ih True rot_Cons [OF "1.prems", of "length (snd (snd ?rec))"]
          by (auto simp: rot_ok_def)
      qed
    qed
  qed
qed

lemma loop_undefined_key:
  assumes "i < length ks" "\<not> idx < length ks"
  shows "googleLoop ks c qu n ax i idx le =
           (Inl (new_Error (''Error calling Google Custom Search: '' @ err_message undefined_key_error)),
            (idx + 1) mod length ks, [idx])"
proof -
  have "ks \<noteq> []" using assms by auto
  then have "getNextApiKey ks idx = (Inr None, (idx + 1) mod length ks)"
    using assms by (simp add: getNextApiKey_def)
  moreover have "\<not> retryable undefined_key_error"
    by (simp add: retryable_def undefined_key_error_def)
  ultimately show ?thesis using assms by (subst googleLoop.simps) simp
qed

lemma loop_tried:
  "length (snd (snd (googleLoop ks c qu n ax i idx le))) \<le> length ks - i \<and>
   distinct (snd (snd (googleLoop ks c qu n ax i idx le)))"
proof (cases "idx < length ks")
  case True
  from loop_trace [OF True, of i c qu n ax le]
  obtain m where m: "m \<le> length ks - i"
    and t: "snd (snd (googleLoop ks c qu n ax i idx le)) = map (\<lambda>j. (idx + j) mod length ks) [0..<m]"
    and l: "length (snd (snd (googleLoop ks c qu n ax i idx le))) = m"
    unfolding rot_ok_def by blast
  have "m \<le> length ks" using m by simp
  then have "distinct (map (\<lambda>j. (idx + j) mod length ks) [0..<m])" by (rule rot_distinct)
  with m t l show ?thesis by simp
next
  case False
  show ?thesis
  proof (cases "i < length ks")
    case True
    with False show ?thesis by (simp add: loop_undefined_key)
  next
    case False
    then show ?thesis by (simp add: googleLoop.simps)
  qed
qed

lemma trim_examples:
  "trim ''k1'' = ''k1''" "trim ''k2'' = ''k2''" "trim ''k3'' = ''k3''" "trim ''k10'' = ''k10''"
  "trim ''# Page'' = ''# Page''"
  by (simp_all add: trim_def strip_leading.simps white_space_def)

lemma keys_ev2: "getAllApiKeys ev2 = [''k1'', ''k3'']"
  by (simp add: getAllApiKeys_def ev2_def api_key_names_def truthy_def trim_examples)

lemma show_int_examples: "show_int 429 = ''429''" "show_int 403 = ''403''"
  by (simp_all add: show_int_def show_nat.simps digit_char_def)

lemma ev2_cse: "ev2 ''GOOGLE_CSE_ID'' = Some ''cx''"
  by (simp add: ev2_def)

lemma run_exhaust:
  "googleCustomSearch ev2 ax_exhaust 1 ''q'' None =
     (Inl (new_Error ''All Google CSE keys exhausted. Last error code: 403, message: forbidden''),
      1, [1, 0])"
proof -
  have m: "(Suc (Suc 0)) mod 2 = (0::nat)" by simp
  show ?thesis
    by (simp add: googleCustomSearch_def keys_ev2 ev2_cse truthy_def googleLoop.simps
        getNextApiKey_def ax_exhaust_def retryable_def exhausted_error_def show_int_examples m)
qed

text \<open>
  A call of \<open>googleCustomSearch\<close> that runs alone selects at most \<open>K\<close> pool positions,
  where \<open>K\<close> is the size of the pool, and never the same position twice, for every value
  \<open>start\<close> of the index, also one outside the pool. When \<open>start\<close> is inside the pool
  the positions are consecutive modulo \<open>K\<close>, beginning at \<open>start\<close>.
\<close>

theorem googleCustomSearch_rotation:
  "length (snd (snd (googleCustomSearch ev axios start qu nr))) \<le> length (getAllApiKeys ev) \<and>
   distinct (snd (snd (googleCustomSearch ev axios start qu nr))) \<and>
   (start < length (getAllApiKeys ev) \<longrightarrow>
      snd (snd (googleCustomSearch ev axios start qu nr)) =
        map (\<lambda>j. (start + j) mod length (getAllApiKeys ev))
          [0..<length (snd (snd (googleCustomSearch ev axios start qu nr)))])"
proof (cases "\<not> truthy (ev ''GOOGLE_CSE_ID'') \<or> length (getAllApiKeys ev) = 0")
  case True
  then show ?thesis by (auto simp: googleCustomSearch_def Let_def)
next
  case False
  then have eq: "googleCustomSearch ev axios start qu nr =
      googleLoop (getAllApiKeys ev) (the (ev ''GOOGLE_CSE_ID'')) qu
        (case nr of None \<Rightarrow> 5 | Some n \<Rightarrow> n) axios 0 start None"
    by (simp add: googleCustomSearch_def Let_def)
  show ?thesis unfolding eq
    using loop_tried [of "getAllApiKeys ev" _ qu _ axios 0 start None]
      loop_trace [of start "getAllApiKeys ev" 0 _ qu _ axios None]
    by (simp add: rot_ok_def)
qed

theorem googleCustomSearch_rotation_witness:
  "1 < length (getAllApiKeys ev2) \<and>
   length (snd (snd (googleCustomSearch ev2 ax_exhaust 1 ''q'' None))) \<le> length (getAllApiKeys ev2) \<and>
   distinct (snd (snd (googleCustomSearch ev2 ax_exhaust 1 ''q'' None))) \<and>
   snd (snd (googleCustomSearch ev2 ax_exhaust 1 ''q'' None)) = [1, 0]"
  using googleCustomSearch_rotation [of ev2 ax_exhaust 1 "''q''" None] run_exhaust
  by (simp add: keys_ev2)

section \<open>The key rotation beside other calls\<close>

lemma googleLoop_shared_alone:
  "googleLoop_shared (\<lambda>i idx. idx) ks c qu n ax i idx le = googleLoop ks c qu n ax i idx le"
proof (induction ks c qu n ax i idx le rule: googleLoop.induct)
  case (1 ks c qu n ax i idx le)
  show ?case
  proof (cases "i < length ks")
    case False
    then show ?thesis by (simp add: googleLoop.simps googleLoop_shared.simps)
  next
    case True
    obtain r' idx' where g: "getNextApiKey ks idx = (r', idx')" by force
    show ?thesis
    proof (cases r')
      case (Inl e)
      with True g show ?thesis
        by (subst googleLoop_shared.simps, subst googleLoop.simps) simp
    next
      case (Inr apiKey)
      let ?out = "case apiKey of None \<Rightarrow> Inl undefined_key_error
                  | Some k \<Rightarrow> ax i \<lparr>key = k, cx = c, q = qu, num = n\<rparr>"
      have res: "(case apiKey of None \<Rightarrow> idx' | Some k \<Rightarrow> idx') = idx'"
        by (cases apiKey) simp_all
      show ?thesis
      proof (cases ?out)
        case out: (Inr items)
        with True g Inr res show ?thesis
          by (subst googleLoop_shared.simps, subst googleLoop.simps) (simp add: Let_def)
      next
        case out: (Inl err)
        show ?thesis
        proof (cases "retryable err")
          case False
          with True g Inr res out show ?thesis
            by (subst googleLoop_shared.simps, subst googleLoop.simps) (simp add: Let_def)
        next
          case r: True
          have ih: "googleLoop_shared (\<lambda>i idx. idx) ks c qu n ax (i + 1) idx' (Some err) =
              googleLoop ks c qu n ax (i + 1) idx' (Some err)"
            using "1.IH" [of r' idx' apiKey err] True g Inr out r by simp
          have l: "googleLoop_shared (\<lambda>i idx. idx) ks c qu n ax i idx le =
              (case googleLoop_shared (\<lambda>i idx. idx) ks c qu n ax (i + 1) idx' (Some err) of
                 (r, idx'', tried) \<Rightarrow> (r, idx'', idx # tried))"
            using True g Inr res out r by (subst googleLoop_shared.simps) (simp add: Let_def)
          have rr: "googleLoop ks c qu n ax i idx le =
              (case googleLoop ks c qu n ax (i + 1) idx' (Some err) of
                 (r, idx'', tried) \<Rightarrow> (r, idx'', idx # tried))"
            using True g Inr out r by (subst googleLoop.simps) simp
          show ?thesis unfolding l rr ih ..
        qed
      qed
    qed
  qed
qed

lemma googleCustomSearch_shared_alone:
  "googleCustomSearch_shared (\<lambda>i idx. idx) ev ax start qu nr = googleCustomSearch ev ax start qu nr"
  unfolding googleCustomSearch_shared_def googleCustomSearch_def googleLoop_shared_alone ..

lemma one_other_call_ev2: "one_other_call i (Suc 0) = 0" "one_other_call i 0 = Suc 0"
  by (simp_all add: one_other_call_def keys_ev2 getNextApiKey_def)

text \<open>
  Claim C7 fails on the code when calls overlap. The pool has two keys and the shared
  index is 0. The call selects position 0 and awaits its request; meanwhile another call
  runs \<open>getNextApiKey\<close> once, which wraps the index back to 0; the request fails with
  status 403 and the call selects position 0 again. It sends the first key twice, never
  tries the second, and reports that all keys are exhausted.
\<close>

theorem overlapping_call_repeats_key:
  "getAllApiKeys ev2 = [''k1'', ''k3''] \<and>
   googleCustomSearch_shared one_other_call ev2 ax_exhaust 0 ''q'' None =
     (Inl (new_Error ''All Google CSE keys exhausted. Last error code: 403, message: forbidden''),
      0, [0, 0]) \<and>
   \<not> distinct (snd (snd (googleCustomSearch_shared one_other_call ev2 ax_exhaust 0 ''q'' None)))"
proof -
  have run: "googleCustomSearch_shared one_other_call ev2 ax_exhaust 0 ''q'' None =
     (Inl (new_Error ''All Google CSE keys exhausted. Last error code: 403, message: forbidden''),
      0, [0, 0])"
    by (simp add: googleCustomSearch_shared_def keys_ev2 ev2_cse truthy_def googleLoop_shared.simps
        getNextApiKey_def ax_exhaust_def retryable_def exhausted_error_def show_int_examples
        one_other_call_ev2 Let_def)
  show ?thesis unfolding run by (simp add: keys_ev2)
qed

section \<open>Retry, abort and exhaustion of the key-rotating provider\<close>







section \<open>The resolver: provider selection and failing open\<close>

text \<open>
  Claim C9. Whatever error a provider throws inside \<open>search\<close>, the resolver returns the
  empty list: the result of \<open>search\<close> is a list for every input, and it is \<open>[]\<close>
  whenever the \<open>try\<close> block ends in an error. In particular, when the key-rotating
  provider is the one selected and \<open>googleCustomSearch\<close> throws (keys exhausted, a
  provider error, no valid key), \<open>search\<close> returns \<open>[]\<close>.
\<close>

theorem search_fails_open:
  "(\<forall>e. fst (snd (search_try ev axios ps idx a)) = Inl e \<longrightarrow>
        fst (search ev axios ps idx a) = []) \<and>
   (\<forall>e n. truthy (ev ''GOOGLE_API_KEY'') \<and> truthy (ev ''GOOGLE_CSE_ID'') \<and>
          n = (case search_args.num_results a of None \<Rightarrow> 5 | Some v \<Rightarrow> v) \<and>
          fst (googleCustomSearch ev axios idx (search_args.query a) (Some n)) = Inl e \<longrightarrow>
        fst (search ev axios ps idx a) = [])"
  by (auto simp: search_def search_try_def Let_def split: prod.splits sum.splits)

lemma ev2_key: "ev2 ''GOOGLE_API_KEY'' = Some ''k1''"
  by (simp add: ev2_def)

theorem search_fails_open_witness:
  "fst (googleCustomSearch ev2 ax_exhaust 1 (search_args.query args_q) (Some 5)) =
     Inl (new_Error ''All Google CSE keys exhausted. Last error code: 403, message: forbidden'') \<and>
   fst (search ev2 ax_exhaust no_providers 1 args_q) = []"
proof -
  have q: "search_args.query args_q = ''q''" "search_args.num_results args_q = None"
    by (simp_all add: args_q_def)
  have run: "googleCustomSearch ev2 ax_exhaust 1 ''q'' (Some 5) = googleCustomSearch ev2 ax_exhaust 1 ''q'' None"
    by (simp add: googleCustomSearch_def)
  show ?thesis
    using search_fails_open [of ev2 ax_exhaust no_providers 1 args_q] run_exhaust run
    by (simp add: q truthy_def ev2_key ev2_cse)
qed

lemma keys_ev_numbered: "getAllApiKeys ev_numbered = [''k2'', ''k10'']"
  by (simp add: getAllApiKeys_def ev_numbered_def api_key_names_def truthy_def trim_examples)

lemma search_try_options:
  "snd (search_try ev axios ps idx a) =
     (if truthy (ev ''GOOGLE_API_KEY'') \<and> truthy (ev ''GOOGLE_CSE_ID'') then
        (case googleCustomSearch ev axios idx (search_args.query a)
                (Some (case search_args.num_results a of None \<Rightarrow> 5 | Some n \<Rightarrow> n)) of
           (r, idx', tried) \<Rightarrow> (r, idx'))
      else (other_provider_result ev ps a, idx))"
  by (simp add: search_try_def other_provider_result_def search_options_def Let_def split: prod.splits)

lemma search_by_guard:
  "search ev axios ps idx a =
     (if truthy (ev ''GOOGLE_API_KEY'') \<and> truthy (ev ''GOOGLE_CSE_ID'') then
        (case googleCustomSearch ev axios idx (search_args.query a)
                (Some (case search_args.num_results a of None \<Rightarrow> 5 | Some n \<Rightarrow> n)) of
           (Inr rs, idx', tried) \<Rightarrow> (rs, idx')
         | (Inl e, idx', tried) \<Rightarrow> ([], idx'))
      else (case other_provider_result ev ps a of Inr rs \<Rightarrow> (rs, idx) | Inl e \<Rightarrow> ([], idx)))"
proof -
  have "search ev axios ps idx a =
      (case snd (search_try ev axios ps idx a) of
         (Inr rs, idx') \<Rightarrow> (rs, idx') | (Inl e, idx') \<Rightarrow> ([], idx'))"
    by (simp add: search_def split: prod.splits sum.splits)
  then show ?thesis
    unfolding search_try_options by (simp split: prod.splits sum.splits)
qed

text \<open>
  Claim C10. \<open>search\<close> uses the key-rotating provider if and only if both
  \<open>GOOGLE_API_KEY\<close> and \<open>GOOGLE_CSE_ID\<close> are set (defined and not empty). When both are
  set, what \<open>search\<close> returns is what \<open>googleCustomSearch\<close> returns (\<open>[]\<close> when it
  throws), whatever the other providers would do. When one of them is not set, what
  \<open>search\<close> returns is the result of Serper, SearchAPI or the raw Google scraper, chosen
  by the other variables (\<open>[]\<close> when that provider throws); it does not depend on the
  HTTP client of the key-rotating provider nor on the numbered keys, and the shared key
  index is left as it was. With only \<open>GOOGLE_API_KEY2\<close> and \<open>GOOGLE_API_KEY10\<close> set the
  pool of \<open>getAllApiKeys\<close> has two keys and the provider is not used.
\<close>

theorem search_provider_by_guard:
  "(truthy (ev ''GOOGLE_API_KEY'') \<and> truthy (ev ''GOOGLE_CSE_ID'') \<longrightarrow>
      search ev axios ps idx a =
        (case googleCustomSearch ev axios idx (search_args.query a)
                (Some (case search_args.num_results a of None \<Rightarrow> 5 | Some n \<Rightarrow> n)) of
           (Inr rs, idx', tried) \<Rightarrow> (rs, idx')
         | (Inl e, idx', tried) \<Rightarrow> ([], idx')) \<and>
      search ev axios ps idx a = search ev axios ps' idx a) \<and>
   (\<not> (truthy (ev ''GOOGLE_API_KEY'') \<and> truthy (ev ''GOOGLE_CSE_ID'')) \<longrightarrow>
      search ev axios ps idx a =
        (case other_provider_result ev ps a of Inr rs \<Rightarrow> (rs, idx) | Inl e \<Rightarrow> ([], idx)) \<and>
      search ev axios ps idx a = search ev axios' ps idx a)"
  by (simp add: search_by_guard)

lemma run_ok:
  "googleCustomSearch ev2 ax_ok 1 ''q'' (Some 5) =
     (Inr [\<lparr>SearchResult.url = ''https://a.example'', SearchResult.title = ''A'',
            SearchResult.description = []\<rparr>], 1, [1, 0])"
proof -
  have m: "(Suc (Suc 0)) mod 2 = (0::nat)" by simp
  show ?thesis
    by (simp add: googleCustomSearch_def keys_ev2 ev2_cse truthy_def googleLoop.simps
        getNextApiKey_def ax_ok_def retryable_def to_SearchResult_def m)
qed

theorem search_provider_by_guard_witness:
  "\<not> truthy (ev_numbered ''GOOGLE_API_KEY'') \<and> truthy (ev_numbered ''GOOGLE_CSE_ID'') \<and>
   getAllApiKeys ev_numbered = [''k2'', ''k10''] \<and>
   search ev_numbered ax_ok tagged_providers 0 args_q =
     ([\<lparr>SearchResult.url = ''https://serper.example'', SearchResult.title = ''S'',
        SearchResult.description = []\<rparr>], 0) \<and>
   truthy (ev2 ''GOOGLE_API_KEY'') \<and> truthy (ev2 ''GOOGLE_CSE_ID'') \<and>
   search ev2 ax_ok tagged_providers 1 args_q =
     ([\<lparr>SearchResult.url = ''https://a.example'', SearchResult.title = ''A'',
        SearchResult.description = []\<rparr>], 1)"
proof -
  have t: "\<not> truthy (ev_numbered ''GOOGLE_API_KEY'')" "truthy (ev_numbered ''GOOGLE_CSE_ID'')"
    "truthy (ev_numbered ''SERPER_API_KEY'')"
    by (simp_all add: truthy_def ev_numbered_def)
  have t2: "truthy (ev2 ''GOOGLE_API_KEY'')" "truthy (ev2 ''GOOGLE_CSE_ID'')"
    by (simp_all add: truthy_def ev2_def)
  have q: "search_args.query args_q = ''q''" "search_args.num_results args_q = None"
    by (simp_all add: args_q_def)
  have o: "other_provider_result ev_numbered tagged_providers args_q =
      Inr [\<lparr>SearchResult.url = ''https://serper.example'', SearchResult.title = ''S'',
            SearchResult.description = []\<rparr>]"
    using t by (simp add: other_provider_result_def tagged_providers_def)
  show ?thesis
    using search_provider_by_guard [of ev_numbered ax_ok tagged_providers 0 args_q]
      search_provider_by_guard [of ev2 ax_ok tagged_providers 1 args_q] t t2 run_ok
    by (simp add: keys_ev_numbered q o)
qed

section \<open>The scrape task of the v1 controller\<close>

lemma includes_prefix: "prefix t s \<Longrightarrow> includes_str s t"
  by (cases s) auto

lemma errorMessage_new_Error: "msg \<noteq> [] \<Longrightarrow> errorMessage (new_Error msg) = msg"
  by (simp add: errorMessage_def new_Error_def)

lemma scrape_completed:
  assumes "priority = Inr p" "\<not> blocked (SearchResult.url r)"
    and "added je = Inr u" "waited je = Inr doc" "removed je = Inr u'"
  shows "scrapeSearchResult blocked msg priority je r t =
           (Inr (merge_document r doc),
            [AddScrapeJob (jobId je) (SearchResult.url r) p, WaitForJob (jobId je) t,
             RemoveJob (jobId je)])"
  using assms by (simp add: scrapeSearchResult_def scrapeSearchResult_try_def Let_def)

lemma scrape_wait_failed:
  assumes "priority = Inr p" "\<not> blocked (SearchResult.url r)"
    and "added je = Inr u" "waited je = Inl e"
  shows "scrapeSearchResult blocked msg priority je r t =
           (Inr (error_document r e),
            [AddScrapeJob (jobId je) (SearchResult.url r) p, WaitForJob (jobId je) t])"
  using assms by (simp add: scrapeSearchResult_def scrapeSearchResult_try_def Let_def)

lemma scrape_blocked:
  assumes "priority = Inr p" "blocked (SearchResult.url r)"
  shows "scrapeSearchResult blocked msg priority je r t =
           (Inr \<lparr>Document.title = Some (SearchResult.title r),
                 Document.description = Some (SearchResult.description r),
                 Document.url = Some (SearchResult.url r),
                 markdown = None, serpResults = None,
                 metadata = Some \<lparr>statusCode = 403,
                                   Metadata.error = Some (''Could not scrape url: '' @ msg)\<rparr>\<rparr>, [])"
proof -
  have "includes_str (''Could not scrape url: '' @ msg) ''Could not scrape url''"
    by (rule includes_prefix) simp
  then show ?thesis using assms
    by (simp add: scrapeSearchResult_def scrapeSearchResult_try_def Let_def error_document_def
        errorMessage_new_Error)
qed

lemma scrape_adds_unblocked:
  "AddScrapeJob j u p \<in> set (snd (scrapeSearchResult blocked msg priority je r t)) \<Longrightarrow>
     u = SearchResult.url r \<and> \<not> blocked u"
  by (auto simp: scrapeSearchResult_def scrapeSearchResult_try_def Let_def
      split: sum.splits if_splits)

lemma scrape_remove_iff:
  "(RemoveJob j \<in> set (snd (scrapeSearchResult blocked msg priority je r t))) =
     ((\<exists>p. priority = Inr p) \<and> \<not> blocked (SearchResult.url r) \<and> (\<exists>u. added je = Inr u) \<and>
      (\<exists>doc. waited je = Inr doc) \<and> j = jobId je)"
  by (auto simp: scrapeSearchResult_def scrapeSearchResult_try_def Let_def
      split: sum.splits if_splits)

text \<open>
  Claim C4, as amended. When a scrape task completes, the returned Document takes its title,
  description and url from the scraped document wherever the scraped document has that
  property, and from the search result only where it has not; \<open>markdown\<close>,
  \<open>serpResults\<close> and \<open>metadata\<close> are the scraped document's. The search result's
  fields are defaults, not overrides.
\<close>

theorem merge_scrape_fields_win:
  assumes "priority = Inr p" "\<not> blocked (SearchResult.url r)"
    and "added je = Inr u" "waited je = Inr doc" "removed je = Inr u'"
  shows "\<exists>d. fst (scrapeSearchResult blocked msg priority je r t) = Inr d \<and>
     Document.title d = (case Document.title doc of Some x \<Rightarrow> Some x
                         | None \<Rightarrow> Some (SearchResult.title r)) \<and>
     Document.description d = (case Document.description doc of Some x \<Rightarrow> Some x
                         | None \<Rightarrow> Some (SearchResult.description r)) \<and>
     Document.url d = (case Document.url doc of Some x \<Rightarrow> Some x
                         | None \<Rightarrow> Some (SearchResult.url r)) \<and>
     markdown d = markdown doc \<and> serpResults d = serpResults doc \<and> metadata d = metadata doc"
  using assms scrape_completed [where blocked = blocked and msg = msg and priority = priority
      and je = je and r = r and t = t and p = p and doc = doc]
  by (simp add: merge_document_def)

theorem merge_scrape_fields_win_witness:
  "fst (scrapeSearchResult (\<lambda>u. False) ''blocked'' (Inr 10) job_ok sr_a 60000) =
     Inr \<lparr>Document.title = Some ''Page title'', Document.description = Some ''Page description'',
          Document.url = Some ''https://a.example'', markdown = Some ''# Page'', serpResults = None,
          metadata = Some \<lparr>statusCode = 200, Metadata.error = None\<rparr>\<rparr>"
  using merge_scrape_fields_win [of "Inr 10" 10 "\<lambda>u. False" sr_a job_ok "()" doc_scraped "()" "''blocked''" 60000]
  by (auto simp: job_ok_def sr_a_def doc_scraped_def)

text \<open>
  Against claim C4 as stated: a scraped document with a title and a description of its
  own replaces the title and the description of the search result.
\<close>

theorem serp_title_overridden:
  "Document.title (projr (fst (scrapeSearchResult (\<lambda>u. False) ''blocked'' (Inr 10) job_ok sr_a 60000)))
     = Some ''Page title'' \<and>
   Document.description (projr (fst (scrapeSearchResult (\<lambda>u. False) ''blocked'' (Inr 10) job_ok sr_a 60000)))
     = Some ''Page description'' \<and>
   SearchResult.title sr_a = ''Serp title'' \<and> SearchResult.description sr_a = ''Serp description''"
  by (simp add: scrapeSearchResult_def scrapeSearchResult_try_def Let_def job_ok_def sr_a_def
      doc_scraped_def merge_document_def)

section \<open>The v1 controller\<close>

lemma scrape_all_nth:
  "scrape_all w t rs =
     map (\<lambda>i. scrapeSearchResult (isUrlBlocked w) (BLOCKLISTED_URL_MESSAGE w)
                 (getJobPriority w i) (jobs w i) (rs ! i) t) [0..<length rs]"
  by (rule nth_equalityI) (simp_all add: scrape_all_def nth_enumerate_eq)

lemma not_isl_iff: "(\<not> isl x) = (\<exists>y. x = Inr y)"
  by (cases x) auto

lemma rejected_Nil_iff: "(rejected ps = []) = (\<forall>x\<in>set ps. \<exists>y. x = Inr y)"
  by (auto simp: rejected_def filter_empty_conv all_set_conv_all_nth not_isl_iff)

lemma promise_all_Inr:
  "\<forall>x\<in>set xs. \<exists>y. x = Inr y \<Longrightarrow> promise_all f xs = Inr (map projr xs)"
  by (simp add: promise_all_def rejected_Nil_iff)

lemma promise_all_length: "promise_all f xs = Inr ys \<Longrightarrow> length ys = length xs"
  by (auto simp: promise_all_def Let_def split: if_splits)

lemma promise_all_Inl:
  assumes "j < length xs" "xs ! j = Inl e"
  shows "\<exists>i<length xs. \<exists>e'. xs ! i = Inl e' \<and> promise_all f xs = Inl e'"
proof -
  let ?rej = "rejected xs"
  have "j \<in> set ?rej" using assms by (simp add: rejected_def)
  then have ne: "?rej \<noteq> []" by auto
  let ?k = "?rej ! (f ?rej mod length ?rej)"
  have "?k \<in> set ?rej" using ne by simp
  then have k: "?k < length xs" "isl (xs ! ?k)" by (simp_all add: rejected_def)
  then have "xs ! ?k = Inl (projl (xs ! ?k))" by simp
  moreover have "promise_all f xs = Inl (projl (xs ! ?k))"
    using ne by (simp add: promise_all_def Let_def)
  ultimately show ?thesis using k(1) by metis
qed

lemma promise_all_one: "promise_all f [Inl e] = Inl e" "promise_all f [Inr x] = Inr [x]"
  by (simp_all add: promise_all_def rejected_def)

lemma promise_all_first_in_time:
  "promise_all (\<lambda>rej. 0) [Inl a, Inr x, Inl b] = Inl a"
  "promise_all (\<lambda>rej. 1) [Inl a, Inr x, Inl b] = Inl b"
  by (simp_all add: promise_all_def rejected_def upt_rec)

lemma scrape_fst_Inr:
  "priority = Inr p \<Longrightarrow> \<exists>d. fst (scrapeSearchResult blocked msg priority je r t) = Inr d"
  by (auto simp: scrapeSearchResult_def split: prod.splits sum.splits)

lemma no_content_error_document: "\<not> has_content (error_document r e)"
  by (simp add: has_content_def error_document_def Let_def truthy_def)

lemma v1_promise_all:
  assumes "\<forall>i<length rs. \<exists>p. getJobPriority w i = Inr p"
  shows "promise_all f (map fst (scrape_all w t rs)) =
           Inr (map (\<lambda>i. projr (fst (scrapeSearchResult (isUrlBlocked w) (BLOCKLISTED_URL_MESSAGE w)
                 (getJobPriority w i) (jobs w i) (rs ! i) t))) [0..<length rs])"
proof -
  have "\<forall>x\<in>set (map fst (scrape_all w t rs)). \<exists>y. x = Inr y"
    using assms scrape_fst_Inr by (fastforce simp: scrape_all_nth)
  then have "promise_all f (map fst (scrape_all w t rs)) = Inr (map projr (map fst (scrape_all w t rs)))"
    by (rule promise_all_Inr)
  then show ?thesis by (simp add: scrape_all_nth o_def)
qed

lemma v1_success:
  assumes "\<forall>i<length (v1_results w body). \<exists>p. getJobPriority w i = Inr p"
  shows "fst (fst (searchController w (Inr body))) = 200 \<and>
         SearchResponse.success (snd (fst (searchController w (Inr body)))) \<and>
         SearchResponse.error (snd (fst (searchController w (Inr body)))) = None"
  using v1_promise_all [OF assms, where f = "race w 0" and t = "SearchRequest.timeout body"]
  by (simp add: searchController_def Let_def)

lemma v1_all_fail:
  assumes rs: "rs = v1_results w body" "rs \<noteq> []"
    and fs: "formats (scrapeOptions body) = Some fs" "fs \<noteq> []"
    and tasks: "\<forall>i<length rs. (\<exists>p. getJobPriority w i = Inr p) \<and>
                  \<not> isUrlBlocked w (SearchResult.url (rs ! i)) \<and>
                  (\<exists>u. added (jobs w i) = Inr u) \<and> (\<exists>e. waited (jobs w i) = Inl e)"
  shows "fst (searchController w (Inr body)) =
           (200, \<lparr>SearchResponse.success = True,
                  SearchResponse.data =
                    Some (map (\<lambda>i. error_document (rs ! i) (projl (waited (jobs w i)))) [0..<length rs]),
                  warning = Some ''No content found in search results'',
                  SearchResponse.error = None\<rparr>)"
proof -
  let ?t = "SearchRequest.timeout body"
  let ?f = "\<lambda>i. scrapeSearchResult (isUrlBlocked w) (BLOCKLISTED_URL_MESSAGE w)
                 (getJobPriority w i) (jobs w i) (rs ! i) ?t"
  have each: "fst (?f i) = Inr (error_document (rs ! i) (projl (waited (jobs w i))))"
    if "i < length rs" for i
  proof -
    from tasks that obtain p u e where "getJobPriority w i = Inr p"
      "\<not> isUrlBlocked w (SearchResult.url (rs ! i))" "added (jobs w i) = Inr u"
      "waited (jobs w i) = Inl e" by blast
    then show ?thesis
      using scrape_wait_failed [where priority = "getJobPriority w i" and p = p
          and blocked = "isUrlBlocked w" and r = "rs ! i" and je = "jobs w i" and u = u and e = e
          and msg = "BLOCKLISTED_URL_MESSAGE w" and t = ?t]
      by simp
  qed
  have prio: "\<forall>i<length rs. \<exists>p. getJobPriority w i = Inr p" using tasks by blast
  have docs: "promise_all (race w 0) (map fst (scrape_all w ?t rs)) =
      Inr (map (\<lambda>i. error_document (rs ! i) (projl (waited (jobs w i)))) [0..<length rs])"
    unfolding v1_promise_all [OF prio] using each by simp
  have none: "filter has_content
      (map (\<lambda>i. error_document (rs ! i) (projl (waited (jobs w i)))) [0..<length rs]) = []"
    by (simp add: filter_empty_conv no_content_error_document)
  show ?thesis
    using rs fs docs none by (simp add: searchController_def Let_def)
qed

lemma enqueue_ok:
  "\<forall>k<length rs. \<exists>u. added (js (i + k)) = Inr u \<Longrightarrow>
   enqueue js p i rs =
     (Inr (), map (\<lambda>k. AddScrapeJob (jobId (js (i + k))) (SearchResult.url (rs ! k)) p) [0..<length rs])"
proof (induction rs arbitrary: i)
  case Nil
  then show ?case by simp
next
  case (Cons r rs)
  from Cons.prems have a0: "\<exists>u. added (js i) = Inr u" by force
  have "\<forall>k<length rs. \<exists>u. added (js (Suc i + k)) = Inr u"
  proof (intro allI impI)
    fix k assume "k < length rs"
    then have "Suc k < length (r # rs)" by simp
    with Cons.prems have "\<exists>u. added (js (i + Suc k)) = Inr u" by blast
    then show "\<exists>u. added (js (Suc i + k)) = Inr u" by simp
  qed
  from Cons.IH [OF this] a0 show ?case
    by (auto simp: map_upt_Suc simp del: upt_Suc)
qed

lemma v0_wait_rejects:
  assumes q: "truthy qry" and scrape: "fetchPageContent po \<noteq> Some False"
    and rs: "rs = v0_results w (the qry) team so" "rs \<noteq> []"
    and prio: "getJobPriority w 0 = Inr p"
    and adds: "\<forall>i<length rs. \<exists>u. added (jobs w i) = Inr u"
    and j: "j < length rs" "waited (jobs w j) = Inl e"
  shows "\<exists>i<length rs. \<exists>e'. waited (jobs w i) = Inl e' \<and>
           searchHelper w tld qry team po so =
             (Inl e', SearchCall (v0_search_args (the qry) team so) #
                   map (\<lambda>k. AddScrapeJob (jobId (jobs w k)) (SearchResult.url (rs ! k)) p) [0..<length rs] @
                   map (\<lambda>i. WaitForJob (jobId (jobs w i)) 60000) [0..<length rs])"
proof -
  let ?ws = "map (\<lambda>i. waited (jobs w i)) [0..<length rs]"
  have enq: "enqueue (jobs w) p 0 rs =
      (Inr (), map (\<lambda>k. AddScrapeJob (jobId (jobs w k)) (SearchResult.url (rs ! k)) p) [0..<length rs])"
    using enqueue_ok [of rs "jobs w" 0 p] adds by simp
  have "\<exists>i<length ?ws. \<exists>e'. ?ws ! i = Inl e' \<and> promise_all (race w 0) ?ws = Inl e'"
    using j by (intro promise_all_Inl [where j = j and e = e]) simp_all
  then obtain i e' where i: "i < length rs" "waited (jobs w i) = Inl e'"
    and pa: "promise_all (race w 0) ?ws = Inl e'" by auto
  have "searchHelper w tld qry team po so =
             (Inl e', SearchCall (v0_search_args (the qry) team so) #
                   map (\<lambda>k. AddScrapeJob (jobId (jobs w k)) (SearchResult.url (rs ! k)) p) [0..<length rs] @
                   map (\<lambda>i. WaitForJob (jobId (jobs w i)) 60000) [0..<length rs])"
    using q scrape rs prio enq pa by (simp add: searchHelper_def Let_def)
  with i show ?thesis by blast
qed

lemma v0_timeout_408:
  assumes q: "truthy qry" and scrape: "fetchPageContent po \<noteq> Some False"
    and rs: "rs = v0_results w (the qry) team so" "rs \<noteq> []"
    and prio: "getJobPriority w 0 = Inr p"
    and adds: "\<forall>i<length rs. \<exists>u. added (jobs w i) = Inr u"
    and j: "j < length rs" "waited (jobs w j) = Inl e"
    and tmo: "\<forall>i<length rs. \<forall>e'. waited (jobs w i) = Inl e' \<longrightarrow> is_timeout_message (errorMessage e')"
  shows "fst (searchController_v0 w tld (Inr (AuthOk team)) (Inr True)
                \<lparr>v0_request.query = qry, pageOptions = Some po, searchOptions = Some so\<rparr>) =
           (408, ErrorBody ''Request timed out'')"
proof -
  from v0_wait_rejects [OF q scrape rs prio adds j, of tld]
  obtain i e' where i: "i < length rs" "waited (jobs w i) = Inl e'"
    and h: "fst (searchHelper w tld qry team po so) = Inl e'" by force
  from tmo i have "is_timeout_message (errorMessage e')" by blast
  with h show ?thesis
    by (cases "searchHelper w tld qry team po so")
      (simp add: searchController_v0_def v0_catch_def Let_def)
qed

text \<open>
  Claim C1, as amended. In the v1 controller, whenever every task obtained its job priority,
  the response has status 200 and \<open>success = true\<close>, whatever the waits did; and when
  every task of a non-empty batch was admitted and its wait was rejected (a timeout
  \<open>Job wait ...\<close> included), the response is \<open>success = true\<close> with the warning
  \<open>No content found in search results\<close> and one error Document per task. In the legacy
  v0 controller, when the tasks of a batch are admitted and some wait is rejected, the
  rejection that settles first leaves the helper; when every rejected wait of the batch is
  a timeout, the response is 408 \<open>Request timed out\<close>.
\<close>

theorem timeout_recovered_v1_escalated_v0:
  "((\<forall>i<length (v1_results w body). \<exists>p. getJobPriority w i = Inr p) \<longrightarrow>
      fst (fst (searchController w (Inr body))) = 200 \<and>
      SearchResponse.success (snd (fst (searchController w (Inr body)))) \<and>
      SearchResponse.error (snd (fst (searchController w (Inr body)))) = None) \<and>
   (rs = v1_results w body \<and> rs \<noteq> [] \<and> formats (scrapeOptions body) = Some fs \<and> fs \<noteq> [] \<and>
    (\<forall>i<length rs. (\<exists>p. getJobPriority w i = Inr p) \<and>
                  \<not> isUrlBlocked w (SearchResult.url (rs ! i)) \<and>
                  (\<exists>u. added (jobs w i) = Inr u) \<and> (\<exists>e. waited (jobs w i) = Inl e)) \<longrightarrow>
      fst (searchController w (Inr body)) =
        (200, \<lparr>SearchResponse.success = True,
               SearchResponse.data =
                 Some (map (\<lambda>i. error_document (rs ! i) (projl (waited (jobs w i)))) [0..<length rs]),
               warning = Some ''No content found in search results'',
               SearchResponse.error = None\<rparr>)) \<and>
   (truthy qry \<and> fetchPageContent po \<noteq> Some False \<and>
    rs0 = v0_results w (the qry) team so \<and> rs0 \<noteq> [] \<and> getJobPriority w 0 = Inr p0 \<and>
    (\<forall>i<length rs0. \<exists>u. added (jobs w i) = Inr u) \<and>
    j < length rs0 \<and> waited (jobs w j) = Inl e0 \<and>
    (\<forall>i<length rs0. \<forall>e. waited (jobs w i) = Inl e \<longrightarrow> is_timeout_message (errorMessage e)) \<longrightarrow>
      fst (searchController_v0 w tld (Inr (AuthOk team)) (Inr True)
             \<lparr>v0_request.query = qry, pageOptions = Some po, searchOptions = Some so\<rparr>) =
        (408, ErrorBody ''Request timed out''))"
proof (intro conjI impI)
  assume "\<forall>i<length (v1_results w body). \<exists>p. getJobPriority w i = Inr p"
  from v1_success [OF this]
  show "fst (fst (searchController w (Inr body))) = 200"
    "SearchResponse.success (snd (fst (searchController w (Inr body))))"
    "SearchResponse.error (snd (fst (searchController w (Inr body)))) = None"
    by simp_all
next
  assume a: "rs = v1_results w body \<and> rs \<noteq> [] \<and> formats (scrapeOptions body) = Some fs \<and> fs \<noteq> [] \<and>
    (\<forall>i<length rs. (\<exists>p. getJobPriority w i = Inr p) \<and>
                  \<not> isUrlBlocked w (SearchResult.url (rs ! i)) \<and>
                  (\<exists>u. added (jobs w i) = Inr u) \<and> (\<exists>e. waited (jobs w i) = Inl e))"
  then show "fst (searchController w (Inr body)) =
        (200, \<lparr>SearchResponse.success = True,
               SearchResponse.data =
                 Some (map (\<lambda>i. error_document (rs ! i) (projl (waited (jobs w i)))) [0..<length rs]),
               warning = Some ''No content found in search results'',
               SearchResponse.error = None\<rparr>)"
    using v1_all_fail [of rs w body fs] by blast
next
  assume a: "truthy qry \<and> fetchPageContent po \<noteq> Some False \<and>
    rs0 = v0_results w (the qry) team so \<and> rs0 \<noteq> [] \<and> getJobPriority w 0 = Inr p0 \<and>
    (\<forall>i<length rs0. \<exists>u. added (jobs w i) = Inr u) \<and>
    j < length rs0 \<and> waited (jobs w j) = Inl e0 \<and>
    (\<forall>i<length rs0. \<forall>e. waited (jobs w i) = Inl e \<longrightarrow> is_timeout_message (errorMessage e))"
  then show "fst (searchController_v0 w tld (Inr (AuthOk team)) (Inr True)
             \<lparr>v0_request.query = qry, pageOptions = Some po, searchOptions = Some so\<rparr>) =
        (408, ErrorBody ''Request timed out'')"
    using v0_timeout_408 [where qry = qry and po = po and rs = rs0 and w = w and team = team
        and so = so and p = p0 and j = j and e = e0 and tld = tld] by blast
qed

lemma v1_results_timeout: "v1_results world_timeout (request_v1 5 fs) = [sr_a]"
  by (simp add: v1_results_def world_timeout_def limit_results_def request_v1_def)

lemma v0_results_timeout: "v0_results world_timeout ''q'' ''team'' (options_v0 (Some 5)) = [sr_a]"
  by (simp add: v0_results_def world_timeout_def limit_results_def v0_num_results_def options_v0_def)

lemma timeout_message: "is_timeout_message (errorMessage (new_Error ''Job wait ''))"
  by (simp add: is_timeout_message_def errorMessage_def new_Error_def)

theorem timeout_recovered_v1_escalated_v0_witness:
  "fst (searchController world_timeout (Inr (request_v1 5 (Some [''markdown''])))) =
     (200, \<lparr>SearchResponse.success = True,
            SearchResponse.data = Some [error_document sr_a (new_Error ''Job wait '')],
            warning = Some ''No content found in search results'',
            SearchResponse.error = None\<rparr>) \<and>
   fst (searchController_v0 world_timeout legacy_of (Inr (AuthOk ''team'')) (Inr True)
          \<lparr>v0_request.query = Some ''q'', pageOptions = Some \<lparr>fetchPageContent = Some True\<rparr>,
           searchOptions = Some (options_v0 (Some 5))\<rparr>) =
     (408, ErrorBody ''Request timed out'')"
proof -
  have w: "getJobPriority world_timeout = (\<lambda>i. Inr 10)" "isUrlBlocked world_timeout = (\<lambda>u. False)"
    "jobs world_timeout = (\<lambda>i. job_timeout)"
    by (simp_all add: world_timeout_def)
  have j: "added job_timeout = Inr ()" "waited job_timeout = Inl (new_Error ''Job wait '')"
    by (simp_all add: job_timeout_def)
  have r: "formats (scrapeOptions (request_v1 5 (Some [''markdown'']))) = Some [''markdown'']"
    by (simp add: request_v1_def)
  show ?thesis
    using timeout_recovered_v1_escalated_v0 [of world_timeout "request_v1 5 (Some [''markdown''])"
        "[sr_a]" "[''markdown'']" "Some ''q''" "\<lparr>fetchPageContent = Some True\<rparr>" "[sr_a]" "''team''"
        "options_v0 (Some 5)" 10 0 "new_Error ''Job wait ''" legacy_of]
    by (simp add: v1_results_timeout v0_results_timeout timeout_message w j r truthy_def)
qed

lemma helper_timeout:
  "searchHelper world_timeout legacy_of (Some ''q'') ''team'' \<lparr>fetchPageContent = Some True\<rparr>
     (options_v0 (Some 5)) =
     (Inl (new_Error ''Job wait ''),
      [SearchCall (v0_search_args ''q'' ''team'' (options_v0 (Some 5))),
       AddScrapeJob ''job-0'' ''https://a.example'' 10, WaitForJob ''job-0'' 60000])"
proof -
  have w: "getJobPriority world_timeout 0 = Inr 10" "jobs world_timeout = (\<lambda>i. job_timeout)"
    by (simp_all add: world_timeout_def)
  have j: "added job_timeout = Inr ()" "waited job_timeout = Inl (new_Error ''Job wait '')"
    "jobId job_timeout = ''job-0''"
    by (simp_all add: job_timeout_def)
  show ?thesis
    using v0_wait_rejects [of "Some ''q''" "\<lparr>fetchPageContent = Some True\<rparr>" "[sr_a]" world_timeout
        "''team''" "options_v0 (Some 5)" 10 0 "new_Error ''Job wait ''" legacy_of]
    by (simp add: v0_results_timeout w j truthy_def sr_a_def)
qed

text \<open>
  Against claim C1 as stated: in the legacy controller one admitted task that times out
  gives the response 408 \<open>Request timed out\<close>.
\<close>

theorem v0_timeout_is_request_failure:
  "added job_timeout = Inr () \<and>
   waited job_timeout = Inl (new_Error ''Job wait '') \<and>
   is_timeout_message (errorMessage (new_Error ''Job wait '')) \<and>
   searchController_v0 world_timeout legacy_of (Inr (AuthOk ''team'')) (Inr True) request_v0 =
     ((408, ErrorBody ''Request timed out''),
      [SearchCall (v0_search_args ''q'' ''team'' (options_v0 (Some 5))),
       AddScrapeJob ''job-0'' ''https://a.example'' 10, WaitForJob ''job-0'' 60000])"
  using helper_timeout [unfolded options_v0_def]
  by (simp add: searchController_v0_def request_v0_def options_v0_def job_timeout_def v0_catch_def
      timeout_message)

section \<open>The over-fetch buffer\<close>

lemma num_results_buffer_div: "num_results_buffer L = (3 * L) div 2"
proof -
  have e: "real_of_int L * 1.5 = real_of_int (3 * L) / real_of_int 2" by simp
  show ?thesis unfolding num_results_buffer_def e by (rule floor_divide_of_int_eq)
qed

lemma num_results_buffer_eq: "num_results_buffer L = L + L div 2"
  unfolding num_results_buffer_div by presburger

lemma ceiling_buffer: "\<lceil>real_of_int L * 1.5\<rceil> = - ((- 3 * L) div 2)"
proof -
  have e: "- (real_of_int L * 1.5) = real_of_int (- 3 * L) / real_of_int 2" by simp
  have "\<lfloor>- (real_of_int L * 1.5)\<rfloor> = (- 3 * L) div 2"
    unfolding e by (rule floor_divide_of_int_eq)
  then show ?thesis unfolding ceiling_def by simp
qed

lemma buffer_is_ceiling_iff: "(num_results_buffer L = \<lceil>real_of_int L * 1.5\<rceil>) = even L"
  unfolding num_results_buffer_div ceiling_buffer by presburger

lemma v1_first_call:
  "\<exists>rest. snd (searchController w (Inr body)) = SearchCall (v1_search_args body) # rest"
  by (simp add: searchController_def Let_def split: sum.splits)

lemma v0_first_call:
  "truthy qry \<Longrightarrow>
     \<exists>rest. snd (searchHelper w tld qry team po so) = SearchCall (v0_search_args (the qry) team so) # rest"
  by (simp add: searchHelper_def Let_def split: sum.splits prod.splits)

lemma buffer_product_is_double:
  assumes "\<bar>L\<bar> < 2 ^ 51"
  shows "\<exists>m. \<bar>m\<bar> < 2 ^ 53 \<and> real_of_int L * 1.5 = real_of_int m / 2"
proof (intro exI conjI)
  show "\<bar>3 * L\<bar> < 2 ^ 53" using assms by simp
  show "real_of_int L * 1.5 = real_of_int (3 * L) / 2" by simp
qed

lemma v1_search_fn_once:
  assumes "f (v1_search_args body) = search_fn w (v1_search_args body)"
  shows "searchController (w\<lparr>search_fn := f\<rparr>) (Inr body) = searchController w (Inr body)"
proof -
  have r: "v1_results (w\<lparr>search_fn := f\<rparr>) body = v1_results w body"
    using assms by (simp add: v1_results_def)
  have s: "scrape_all (w\<lparr>search_fn := f\<rparr>) t rs = scrape_all w t rs" for t rs
    by (simp add: scrape_all_def)
  show ?thesis by (simp add: searchController_def Let_def r s)
qed

lemma v0_search_fn_once:
  assumes "f (v0_search_args (the qry) team so) = search_fn w (v0_search_args (the qry) team so)"
  shows "searchHelper (w\<lparr>search_fn := f\<rparr>) tld qry team po so = searchHelper w tld qry team po so"
proof -
  have r: "v0_results (w\<lparr>search_fn := f\<rparr>) (the qry) team so = v0_results w (the qry) team so"
    using assms by (simp add: v0_results_def)
  show ?thesis using assms
    by (simp add: searchHelper_def Let_def r cong: sum.case_cong prod.case_cong if_cong)
qed

text \<open>
  Claim C2, as amended. For an integer limit \<open>L\<close> with \<open>\<bar>L\<bar> < 2^51\<close>, where the
  double-precision product \<open>L * 1.5\<close> is exact (a multiple of one half of magnitude below
  \<open>2^52\<close>), the number of results requested from the resolver is
  \<open>floor(L * 1.5) = L + L div 2\<close>: in v1 \<open>L\<close> is the requested limit, in v0 it is
  \<open>v0_num_results\<close> (the limit, 7 when absent, capped at 10, or 1 for one team).
  \<open>floor(L * 1.5)\<close> equals \<open>ceil(L * 1.5)\<close> exactly when \<open>L\<close> is even. The resolver call
  is the first call of the request, and the resolver is applied to these arguments only:
  a resolver that agrees with it there gives the same response and the same calls.
\<close>

theorem overfetch_is_floor:
  "(\<bar>SearchRequest.limit body\<bar> < 2 ^ 51 \<longrightarrow>
      search_args.num_results (v1_search_args body) =
        Some (SearchRequest.limit body + SearchRequest.limit body div 2)) \<and>
   (\<exists>rest. snd (searchController w (Inr body)) = SearchCall (v1_search_args body) # rest) \<and>
   (f (v1_search_args body) = search_fn w (v1_search_args body) \<longrightarrow>
      searchController (w\<lparr>search_fn := f\<rparr>) (Inr body) = searchController w (Inr body)) \<and>
   (\<bar>v0_num_results team so\<bar> < 2 ^ 51 \<longrightarrow>
      search_args.num_results (v0_search_args qs team so) =
        Some (v0_num_results team so + v0_num_results team so div 2)) \<and>
   (truthy qry \<longrightarrow>
      (\<exists>rest. snd (searchHelper w tld qry team po so) =
                SearchCall (v0_search_args (the qry) team so) # rest)) \<and>
   (g (v0_search_args (the qry) team so) = search_fn w (v0_search_args (the qry) team so) \<longrightarrow>
      searchHelper (w\<lparr>search_fn := g\<rparr>) tld qry team po so = searchHelper w tld qry team po so) \<and>
   (\<bar>L\<bar> < 2 ^ 51 \<longrightarrow> (num_results_buffer L = \<lceil>real_of_int L * 1.5\<rceil>) = even L)"
proof (intro conjI impI)
  show "search_args.num_results (v1_search_args body) =
     Some (SearchRequest.limit body + SearchRequest.limit body div 2)"
    by (simp add: v1_search_args_def num_results_buffer_eq)
  show "\<exists>rest. snd (searchController w (Inr body)) = SearchCall (v1_search_args body) # rest"
    by (rule v1_first_call)
  show "searchController (w\<lparr>search_fn := f\<rparr>) (Inr body) = searchController w (Inr body)"
    if "f (v1_search_args body) = search_fn w (v1_search_args body)"
    using that by (rule v1_search_fn_once)
  show "search_args.num_results (v0_search_args qs team so) =
     Some (v0_num_results team so + v0_num_results team so div 2)"
    by (simp add: v0_search_args_def num_results_buffer_eq)
  show "\<exists>rest. snd (searchHelper w tld qry team po so) =
                SearchCall (v0_search_args (the qry) team so) # rest" if "truthy qry"
    using that by (rule v0_first_call)
  show "searchHelper (w\<lparr>search_fn := g\<rparr>) tld qry team po so = searchHelper w tld qry team po so"
    if "g (v0_search_args (the qry) team so) = search_fn w (v0_search_args (the qry) team so)"
    using that by (rule v0_search_fn_once)
  show "(num_results_buffer L = \<lceil>real_of_int L * 1.5\<rceil>) = even L"
    by (rule buffer_is_ceiling_iff)
qed

theorem overfetch_is_floor_witness:
  "\<bar>SearchRequest.limit (request_v1 3 None)\<bar> < 2 ^ 51 \<and>
   \<bar>v0_num_results ''team'' (options_v0 (Some 3))\<bar> < 2 ^ 51 \<and>
   truthy (Some ''q'') \<and>
   search_args.num_results (v1_search_args (request_v1 3 None)) = Some 4 \<and>
   hd (snd (searchController world_three (Inr (request_v1 3 None)))) =
     SearchCall (v1_search_args (request_v1 3 None)) \<and>
   searchController
       (world_three\<lparr>search_fn :=
          \<lambda>a. if a = v1_search_args (request_v1 3 None) then [sr_a, sr_b, sr_c] else []\<rparr>)
       (Inr (request_v1 3 None)) =
     searchController world_three (Inr (request_v1 3 None)) \<and>
   search_args.num_results (v0_search_args ''q'' ''team'' (options_v0 (Some 3))) = Some 4 \<and>
   hd (snd (searchHelper world_three legacy_of (Some ''q'') ''team'' \<lparr>fetchPageContent = Some False\<rparr>
              (options_v0 (Some 3)))) =
     SearchCall (v0_search_args ''q'' ''team'' (options_v0 (Some 3))) \<and>
   searchHelper
       (world_three\<lparr>search_fn :=
          \<lambda>a. if a = v0_search_args ''q'' ''team'' (options_v0 (Some 3)) then [sr_a, sr_b, sr_c]
              else []\<rparr>)
       legacy_of (Some ''q'') ''team'' \<lparr>fetchPageContent = Some False\<rparr> (options_v0 (Some 3)) =
     searchHelper world_three legacy_of (Some ''q'') ''team'' \<lparr>fetchPageContent = Some False\<rparr>
       (options_v0 (Some 3)) \<and>
   (num_results_buffer 3 = \<lceil>real_of_int 3 * 1.5\<rceil>) = even (3::int)"
proof -
  have l: "SearchRequest.limit (request_v1 3 None) = 3" by (simp add: request_v1_def)
  have n: "v0_num_results ''team'' (options_v0 (Some 3)) = 3"
    by (simp add: v0_num_results_def options_v0_def)
  have t: "truthy (Some ''q'')" by (simp add: truthy_def)
  have s: "search_fn world_three = (\<lambda>a. [sr_a, sr_b, sr_c])" by (simp add: world_three_def)
  show ?thesis
    using overfetch_is_floor [where body = "request_v1 3 None" and w = world_three and qs = "''q''"
        and team = "''team''" and so = "options_v0 (Some 3)" and qry = "Some ''q''"
        and tld = legacy_of and po = "\<lparr>fetchPageContent = Some False\<rparr>" and L = 3
        and f = "\<lambda>a. if a = v1_search_args (request_v1 3 None) then [sr_a, sr_b, sr_c] else []"
        and g = "\<lambda>a. if a = v0_search_args ''q'' ''team'' (options_v0 (Some 3)) then [sr_a, sr_b, sr_c]
              else []"] t
    by (auto simp: l n s)
qed

text \<open>
  Against claim C2 as stated: for a limit of 3 the controller requests 4 results, and
  \<open>ceil(3 * 1.5) = 5\<close>.
\<close>

theorem overfetch_not_ceiling:
  "search_args.num_results (v1_search_args (request_v1 3 None)) = Some 4 \<and>
   \<lceil>real_of_int (SearchRequest.limit (request_v1 3 None)) * 1.5\<rceil> = 5"
proof -
  have l: "SearchRequest.limit (request_v1 3 None) = 3" by (simp add: request_v1_def)
  have "num_results_buffer 3 = 4" by (simp add: num_results_buffer_div)
  moreover have "\<lceil>real_of_int 3 * 1.5\<rceil> = (5::int)" by (simp add: ceiling_buffer)
  ultimately show ?thesis by (simp add: v1_search_args_def l)
qed

section \<open>Admission and the blocklist\<close>

lemma set_limit_results: "set (limit_results xs n) \<subseteq> set xs"
  by (auto simp: limit_results_def slice0_def dest: in_set_takeD)

lemma snd_enqueue_Cons:
  "snd (enqueue js pr i (r # rs)) =
     AddScrapeJob (jobId (js i)) (SearchResult.url r) pr #
       (case added (js i) of Inl e \<Rightarrow> [] | Inr ok \<Rightarrow> snd (enqueue js pr (Suc i) rs))"
  by (simp add: split_beta split: sum.splits)

lemma enqueue_adds:
  "AddScrapeJob jid u p \<in> set (snd (enqueue js pr i rs)) \<Longrightarrow> \<exists>r\<in>set rs. u = SearchResult.url r"
proof (induction rs arbitrary: i)
  case Nil
  then show ?case by simp
next
  case (Cons r rs)
  then show ?case
    unfolding snd_enqueue_Cons by (cases "added (js i)") auto
qed

lemma v0_results_unblocked:
  "r \<in> set (v0_results w qs team so) \<Longrightarrow> \<not> isUrlBlocked w (SearchResult.url r)"
  using set_limit_results by (fastforce simp: v0_results_def)

lemma helper_effects:
  "x \<in> set (snd (searchHelper w tld qry team po so)) \<Longrightarrow>
     (\<exists>a. x = SearchCall a) \<or> (\<exists>n. x = BillTeam n) \<or> (\<exists>jid t. x = WaitForJob jid t) \<or>
     (\<exists>jid. x = RemoveJob jid) \<or>
     (\<exists>pr. x \<in> set (snd (enqueue (jobs w) pr 0 (v0_results w (the qry) team so))))"
  by (auto simp: searchHelper_def Let_def split_beta split: if_splits sum.splits)

lemma helper_adds_unblocked:
  assumes "AddScrapeJob jid u p \<in> set (snd (searchHelper w tld qry team po so))"
  shows "\<not> isUrlBlocked w u"
proof -
  from helper_effects [OF assms] obtain pr where
    "AddScrapeJob jid u p \<in> set (snd (enqueue (jobs w) pr 0 (v0_results w (the qry) team so)))"
    by auto
  from enqueue_adds [OF this] obtain r where "r \<in> set (v0_results w (the qry) team so)"
    "u = SearchResult.url r" by blast
  then show ?thesis using v0_results_unblocked by blast
qed

lemma v1_effects:
  "x \<in> set (snd (searchController w parsed)) \<Longrightarrow>
     (\<exists>a. x = SearchCall a) \<or> (\<exists>n. x = BillTeam n) \<or> (\<exists>n. x = LogJob n) \<or>
     (\<exists>body y. parsed = Inr body \<and>
         y \<in> set (scrape_all w (SearchRequest.timeout body) (v1_results w body)) \<and> x \<in> set (snd y))"
  by (auto simp: searchController_def Let_def split: if_splits sum.splits)

lemma v1_adds_unblocked:
  assumes "AddScrapeJob jid u p \<in> set (snd (searchController w parsed))"
  shows "\<not> isUrlBlocked w u"
proof -
  from v1_effects [OF assms] obtain body y where
    y: "y \<in> set (scrape_all w (SearchRequest.timeout body) (v1_results w body))"
    and m: "AddScrapeJob jid u p \<in> set (snd y)" by auto
  from y obtain i where "y = scrapeSearchResult (isUrlBlocked w) (BLOCKLISTED_URL_MESSAGE w)
      (getJobPriority w i) (jobs w i) (v1_results w body ! i) (SearchRequest.timeout body)"
    by (auto simp: scrape_all_nth)
  with m scrape_adds_unblocked show ?thesis by blast
qed

lemma v0_controller_effects:
  "x \<in> set (snd (searchController_v0 w tld auth credits body)) \<Longrightarrow>
     (\<exists>n. x = LogJob n) \<or>
     (\<exists>team po so. x \<in> set (snd (searchHelper w tld (v0_request.query body) team po so)))"
  by (auto simp: searchController_v0_def Let_def split_beta
      split: sum.splits auth_result.splits bool.splits if_splits)

lemma scrape_priority_rejected:
  "scrapeSearchResult blocked msg (Inl e) je r t = (Inl e, [])"
  by (simp add: scrapeSearchResult_def)

lemma helper_blocked_dropped:
  assumes "fetchPageContent po \<noteq> Some False"
  shows "searchHelper
           (w\<lparr>search_fn :=
                \<lambda>a. filter (\<lambda>x. \<not> isUrlBlocked w (SearchResult.url x)) (search_fn w a)\<rparr>)
           tld qry team po so =
         searchHelper w tld qry team po so"
proof -
  have r: "v0_results
             (w\<lparr>search_fn :=
                  \<lambda>a. filter (\<lambda>x. \<not> isUrlBlocked w (SearchResult.url x)) (search_fn w a)\<rparr>)
             (the qry) team so =
           v0_results w (the qry) team so"
    by (simp add: v0_results_def)
  show ?thesis using assms
    by (simp add: searchHelper_def Let_def r cong: sum.case_cong prod.case_cong if_cong)
qed

lemma helper_search_only:
  assumes "truthy qry" "fetchPageContent po = Some False"
  shows "searchHelper w tld qry team po so =
        (Inr \<lparr>helper_result.success = True, helper_result.error = None,
               helper_result.data =
                 Some (SerpData (search_fn w (v0_search_args (the qry) team so))),
               returnCode = 200\<rparr>,
         [SearchCall (v0_search_args (the qry) team so),
          BillTeam (length (search_fn w (v0_search_args (the qry) team so)))])"
  using assms by (simp add: searchHelper_def Let_def)

lemma v1_search_only:
  assumes "limit_results (search_fn w (v1_search_args body)) (SearchRequest.limit body) \<noteq> []"
    "case formats (scrapeOptions body) of None \<Rightarrow> True | Some fs \<Rightarrow> length fs = 0"
  shows "searchController w (Inr body) =
        ((200, \<lparr>SearchResponse.success = True,
                 data = Some (map serp_document
                          (limit_results (search_fn w (v1_search_args body))
                             (SearchRequest.limit body))),
                 warning = None, SearchResponse.error = None\<rparr>),
         [SearchCall (v1_search_args body),
          BillTeam (length (limit_results (search_fn w (v1_search_args body))
                              (SearchRequest.limit body)))])"
  using assms by (simp add: searchController_def Let_def v1_results_def)

text \<open>
  Claim C5, as amended. A blocked URL is never passed to \<open>addScrapeJob\<close>, in the v1
  controller and in the legacy one. In v1, once \<open>getJobPriority\<close> has resolved,
  \<open>scrapeSearchResult\<close> resolves a blocked URL, without any queue call, to the rejection
  Document: the search result's title, description and url, status code 403 and the error
  \<open>Could not scrape url: \<close> followed by the blocklist message; when \<open>getJobPriority\<close>
  rejects, \<open>scrapeSearchResult\<close> rejects with that error, without any queue call and
  without a Document, whatever the URL. No other path produces a rejection Document. The
  legacy helper, when it scrapes, scrapes results that contain no blocked URL, and its
  outcome is the one it has when the blocked results are removed from the resolver's
  answer: a blocked result gives no Document there. The paths that do not scrape (the
  legacy helper with \<open>fetchPageContent = false\<close>, the v1 controller without formats) return
  and bill the resolver's results, blocked URLs included, and do not consult the blocklist.
\<close>

theorem blocked_url_never_enqueued:
  "(isUrlBlocked w (SearchResult.url r) \<longrightarrow>
      scrapeSearchResult (isUrlBlocked w) (BLOCKLISTED_URL_MESSAGE w) (Inr p) je r t =
        (Inr \<lparr>Document.title = Some (SearchResult.title r),
              Document.description = Some (SearchResult.description r),
              Document.url = Some (SearchResult.url r),
              markdown = None, serpResults = None,
              metadata = Some \<lparr>statusCode = 403,
                Metadata.error = Some (''Could not scrape url: '' @ BLOCKLISTED_URL_MESSAGE w)\<rparr>\<rparr>,
         [])) \<and>
   scrapeSearchResult (isUrlBlocked w) (BLOCKLISTED_URL_MESSAGE w) (Inl e) je r t = (Inl e, []) \<and>
   (AddScrapeJob jid u pr \<in> set (snd (searchController w parsed)) \<longrightarrow> \<not> isUrlBlocked w u) \<and>
   (AddScrapeJob jid u pr \<in> set (snd (searchController_v0 w tld auth credits body0)) \<longrightarrow>
      \<not> isUrlBlocked w u) \<and>
   (r' \<in> set (v0_results w qs team so) \<longrightarrow> \<not> isUrlBlocked w (SearchResult.url r')) \<and>
   (fetchPageContent po \<noteq> Some False \<longrightarrow>
      searchHelper
          (w\<lparr>search_fn :=
               \<lambda>a. filter (\<lambda>x. \<not> isUrlBlocked w (SearchResult.url x)) (search_fn w a)\<rparr>)
          tld qry team po so =
        searchHelper w tld qry team po so) \<and>
   (truthy qry \<and> fetchPageContent po' = Some False \<longrightarrow>
      searchHelper w tld qry team po' so =
        (Inr \<lparr>helper_result.success = True, helper_result.error = None,
               helper_result.data =
                 Some (SerpData (search_fn w (v0_search_args (the qry) team so))),
               returnCode = 200\<rparr>,
         [SearchCall (v0_search_args (the qry) team so),
          BillTeam (length (search_fn w (v0_search_args (the qry) team so)))])) \<and>
   (limit_results (search_fn w (v1_search_args body)) (SearchRequest.limit body) \<noteq> [] \<and>
    (case formats (scrapeOptions body) of None \<Rightarrow> True | Some fs \<Rightarrow> length fs = 0) \<longrightarrow>
      searchController w (Inr body) =
        ((200, \<lparr>SearchResponse.success = True,
                 data = Some (map serp_document
                          (limit_results (search_fn w (v1_search_args body))
                             (SearchRequest.limit body))),
                 warning = None, SearchResponse.error = None\<rparr>),
         [SearchCall (v1_search_args body),
          BillTeam (length (limit_results (search_fn w (v1_search_args body))
                              (SearchRequest.limit body)))]))"
proof (intro conjI impI)
  assume "r' \<in> set (v0_results w qs team so)"
  then show "\<not> isUrlBlocked w (SearchResult.url r')" by (rule v0_results_unblocked)
next
  assume "isUrlBlocked w (SearchResult.url r)"
  then show "scrapeSearchResult (isUrlBlocked w) (BLOCKLISTED_URL_MESSAGE w) (Inr p) je r t =
        (Inr \<lparr>Document.title = Some (SearchResult.title r),
              Document.description = Some (SearchResult.description r),
              Document.url = Some (SearchResult.url r),
              markdown = None, serpResults = None,
              metadata = Some \<lparr>statusCode = 403,
                Metadata.error = Some (''Could not scrape url: '' @ BLOCKLISTED_URL_MESSAGE w)\<rparr>\<rparr>,
         [])"
    by (intro scrape_blocked) simp_all
next
  show "scrapeSearchResult (isUrlBlocked w) (BLOCKLISTED_URL_MESSAGE w) (Inl e) je r t = (Inl e, [])"
    by (rule scrape_priority_rejected)
next
  assume "AddScrapeJob jid u pr \<in> set (snd (searchController w parsed))"
  then show "\<not> isUrlBlocked w u" by (rule v1_adds_unblocked)
next
  assume "AddScrapeJob jid u pr \<in> set (snd (searchController_v0 w tld auth credits body0))"
  from v0_controller_effects [OF this] obtain team po so where
    "AddScrapeJob jid u pr \<in> set (snd (searchHelper w tld (v0_request.query body0) team po so))"
    by auto
  then show "\<not> isUrlBlocked w u" by (rule helper_adds_unblocked)
next
  assume "fetchPageContent po \<noteq> Some False"
  then show "searchHelper
          (w\<lparr>search_fn :=
               \<lambda>a. filter (\<lambda>x. \<not> isUrlBlocked w (SearchResult.url x)) (search_fn w a)\<rparr>)
          tld qry team po so =
        searchHelper w tld qry team po so"
    by (rule helper_blocked_dropped)
next
  assume "truthy qry \<and> fetchPageContent po' = Some False"
  then show "searchHelper w tld qry team po' so =
        (Inr \<lparr>helper_result.success = True, helper_result.error = None,
               helper_result.data =
                 Some (SerpData (search_fn w (v0_search_args (the qry) team so))),
               returnCode = 200\<rparr>,
         [SearchCall (v0_search_args (the qry) team so),
          BillTeam (length (search_fn w (v0_search_args (the qry) team so)))])"
    by (intro helper_search_only) simp_all
next
  assume "limit_results (search_fn w (v1_search_args body)) (SearchRequest.limit body) \<noteq> [] \<and>
    (case formats (scrapeOptions body) of None \<Rightarrow> True | Some fs \<Rightarrow> length fs = 0)"
  then show "searchController w (Inr body) =
        ((200, \<lparr>SearchResponse.success = True,
                 data = Some (map serp_document
                          (limit_results (search_fn w (v1_search_args body))
                             (SearchRequest.limit body))),
                 warning = None, SearchResponse.error = None\<rparr>),
         [SearchCall (v1_search_args body),
          BillTeam (length (limit_results (search_fn w (v1_search_args body))
                              (SearchRequest.limit body)))])"
    by (intro v1_search_only) simp_all
qed

lemma v1_results_ok: "v1_results world_ok (request_v1 5 fs) = [sr_a]"
  by (simp add: v1_results_def world_ok_def limit_results_def request_v1_def)

lemma v0_results_ok: "v0_results world_ok ''q'' ''team'' (options_v0 (Some 5)) = [sr_a]"
  by (simp add: v0_results_def world_ok_def limit_results_def v0_num_results_def options_v0_def)

lemma has_content_scraped: "has_content (merge_document sr_a doc_scraped)"
  by (simp add: has_content_def merge_document_def doc_scraped_def truthy_def trim_examples)

lemma world_ok_fields:
  "getJobPriority world_ok = (\<lambda>i. Inr 10)" "isUrlBlocked world_ok = (\<lambda>u. False)"
  "jobs world_ok = (\<lambda>i. job_ok)" "BLOCKLISTED_URL_MESSAGE world_ok = ''blocked''"
  by (simp_all add: world_ok_def)

lemma job_ok_fields:
  "jobId job_ok = ''job-0''" "added job_ok = Inr ()" "waited job_ok = Inr doc_scraped"
  "removed job_ok = Inr ()"
  by (simp_all add: job_ok_def)

lemma task_ok:
  "scrapeSearchResult (\<lambda>u. False) ''blocked'' (Inr 10) job_ok sr_a 60000 =
     (Inr (merge_document sr_a doc_scraped),
      [AddScrapeJob ''job-0'' ''https://a.example'' 10, WaitForJob ''job-0'' 60000, RemoveJob ''job-0''])"
  using scrape_completed [of "Inr 10" 10 "\<lambda>u. False" sr_a job_ok "()" doc_scraped "()" "''blocked''" 60000]
  by (simp add: job_ok_fields sr_a_def)

lemma v1_run_ok:
  "snd (searchController world_ok (Inr (request_v1 5 (Some [''markdown''])))) =
     [SearchCall (v1_search_args (request_v1 5 (Some [''markdown'']))),
      AddScrapeJob ''job-0'' ''https://a.example'' 10, WaitForJob ''job-0'' 60000, RemoveJob ''job-0'',
      BillTeam 1, LogJob 1]"
proof -
  have r: "formats (scrapeOptions (request_v1 5 (Some [''markdown'']))) = Some [''markdown'']"
    "SearchRequest.timeout (request_v1 5 (Some [''markdown''])) = 60000"
    by (simp_all add: request_v1_def)
  have s: "scrape_all world_ok 60000 [sr_a] =
      [scrapeSearchResult (\<lambda>u. False) ''blocked'' (Inr 10) job_ok sr_a 60000]"
    by (simp add: scrape_all_def world_ok_fields)
  show ?thesis
    by (simp add: searchController_def Let_def v1_results_ok r s task_ok has_content_scraped
        promise_all_one)
qed

lemma v0_run_ok:
  "snd (searchController_v0 world_ok legacy_of (Inr (AuthOk ''team'')) (Inr True) request_v0) =
     [SearchCall (v0_search_args ''q'' ''team'' (options_v0 (Some 5))),
      AddScrapeJob ''job-0'' ''https://a.example'' 10, WaitForJob ''job-0'' 60000, RemoveJob ''job-0'',
      LogJob 1]"
proof -
  have c: "has_legacy_content (legacy_of doc_scraped)"
    by (simp add: has_legacy_content_def legacy_of_def doc_scraped_def truthy_def trim_examples)
  have h: "searchHelper world_ok legacy_of (Some ''q'') ''team'' \<lparr>fetchPageContent = Some True\<rparr>
      (options_v0 (Some 5)) =
     (Inr \<lparr>helper_result.success = True, helper_result.error = None,
           helper_result.data = Some (DocData [legacy_of doc_scraped]), returnCode = 200\<rparr>,
      [SearchCall (v0_search_args ''q'' ''team'' (options_v0 (Some 5))),
       AddScrapeJob ''job-0'' ''https://a.example'' 10, WaitForJob ''job-0'' 60000, RemoveJob ''job-0''])"
    by (simp add: searchHelper_def Let_def truthy_def v0_results_ok world_ok_fields job_ok_fields c
        sr_a_def promise_all_one)
  show ?thesis
    using h [unfolded options_v0_def]
    by (simp add: searchController_v0_def request_v0_def options_v0_def v0_num_docs_def)
qed

lemma helper_blocked_run:
  "searchHelper world_blocked legacy_of (Some ''q'') ''team'' \<lparr>fetchPageContent = Some True\<rparr>
      (options_v0 (Some 5)) =
     (Inr \<lparr>helper_result.success = True, helper_result.error = Some ''No search results found'',
           helper_result.data = None, returnCode = 200\<rparr>,
      [SearchCall (v0_search_args ''q'' ''team'' (options_v0 (Some 5)))])"
proof -
  have r: "v0_results world_blocked ''q'' ''team'' (options_v0 (Some 5)) = []"
    by (simp add: v0_results_def world_blocked_def limit_results_def sr_a_def slice0_def)
  show ?thesis by (simp add: searchHelper_def Let_def truthy_def r)
qed

theorem blocked_url_never_enqueued_witness:
  "isUrlBlocked world_blocked (SearchResult.url sr_a) \<and>
   scrapeSearchResult (isUrlBlocked world_blocked) (BLOCKLISTED_URL_MESSAGE world_blocked) (Inr 10)
       job_ok sr_a 60000 =
     (Inr \<lparr>Document.title = Some ''Serp title'', Document.description = Some ''Serp description'',
           Document.url = Some ''https://a.example'', markdown = None, serpResults = None,
           metadata = Some \<lparr>statusCode = 403,
                             Metadata.error = Some ''Could not scrape url: blocked''\<rparr>\<rparr>, []) \<and>
   scrapeSearchResult (isUrlBlocked world_blocked) (BLOCKLISTED_URL_MESSAGE world_blocked)
       (Inl (new_Error ''boom'')) job_ok sr_a 60000 = (Inl (new_Error ''boom''), []) \<and>
   AddScrapeJob ''job-0'' ''https://a.example'' 10
     \<in> set (snd (searchController world_ok (Inr (request_v1 5 (Some [''markdown'']))))) \<and>
   AddScrapeJob ''job-0'' ''https://a.example'' 10
     \<in> set (snd (searchController_v0 world_ok legacy_of (Inr (AuthOk ''team'')) (Inr True) request_v0)) \<and>
   sr_a \<in> set (v0_results world_ok ''q'' ''team'' (options_v0 (Some 5))) \<and>
   \<not> isUrlBlocked world_ok ''https://a.example'' \<and>
   fetchPageContent \<lparr>fetchPageContent = Some True\<rparr> \<noteq> Some False \<and>
   searchHelper world_blocked legacy_of (Some ''q'') ''team'' \<lparr>fetchPageContent = Some True\<rparr>
       (options_v0 (Some 5)) =
     searchHelper (world_blocked\<lparr>search_fn := \<lambda>a. []\<rparr>) legacy_of (Some ''q'') ''team''
       \<lparr>fetchPageContent = Some True\<rparr> (options_v0 (Some 5)) \<and>
   searchHelper world_blocked legacy_of (Some ''q'') ''team'' \<lparr>fetchPageContent = Some True\<rparr>
       (options_v0 (Some 5)) =
     (Inr \<lparr>helper_result.success = True, helper_result.error = Some ''No search results found'',
           helper_result.data = None, returnCode = 200\<rparr>,
      [SearchCall (v0_search_args ''q'' ''team'' (options_v0 (Some 5)))]) \<and>
   truthy (Some ''q'') \<and>
   fetchPageContent \<lparr>fetchPageContent = Some False\<rparr> = Some False \<and>
   searchHelper world_blocked legacy_of (Some ''q'') ''team'' \<lparr>fetchPageContent = Some False\<rparr>
       (options_v0 (Some 5)) =
     (Inr \<lparr>helper_result.success = True, helper_result.error = None,
           helper_result.data = Some (SerpData [sr_a]), returnCode = 200\<rparr>,
      [SearchCall (v0_search_args ''q'' ''team'' (options_v0 (Some 5))), BillTeam 1]) \<and>
   limit_results (search_fn world_blocked (v1_search_args (request_v1 5 None)))
       (SearchRequest.limit (request_v1 5 None)) = [sr_a] \<and>
   formats (scrapeOptions (request_v1 5 None)) = None \<and>
   searchController world_blocked (Inr (request_v1 5 None)) =
     ((200, \<lparr>SearchResponse.success = True, data = Some [serp_document sr_a],
              warning = None, SearchResponse.error = None\<rparr>),
      [SearchCall (v1_search_args (request_v1 5 None)), BillTeam 1])"
proof -
  have b: "isUrlBlocked world_blocked (SearchResult.url sr_a)"
    "BLOCKLISTED_URL_MESSAGE world_blocked = ''blocked''"
    by (simp_all add: world_blocked_def sr_a_def)
  have m: "AddScrapeJob ''job-0'' ''https://a.example'' 10
     \<in> set (snd (searchController world_ok (Inr (request_v1 5 (Some [''markdown''])))))"
    by (simp add: v1_run_ok)
  have m0: "AddScrapeJob ''job-0'' ''https://a.example'' 10
     \<in> set (snd (searchController_v0 world_ok legacy_of (Inr (AuthOk ''team'')) (Inr True) request_v0))"
    by (simp add: v0_run_ok)
  have u: "SearchResult.url sr_a = ''https://a.example''" by (simp add: sr_a_def)
  have sa: "SearchResult.title sr_a = ''Serp title''"
    "SearchResult.description sr_a = ''Serp description''"
    by (simp_all add: sr_a_def)
  have f: "(\<lambda>a. filter (\<lambda>x. \<not> isUrlBlocked world_blocked (SearchResult.url x))
                   (search_fn world_blocked a)) = (\<lambda>a. [])"
    by (simp add: world_blocked_def sr_a_def)
  have s: "search_fn world_blocked = (\<lambda>a. [sr_a])" by (simp add: world_blocked_def)
  have t: "truthy (Some ''q'')" by (simp add: truthy_def)
  have l: "limit_results [sr_a] (SearchRequest.limit (request_v1 5 None)) = [sr_a]"
    "formats (scrapeOptions (request_v1 5 None)) = None"
    by (simp_all add: limit_results_def request_v1_def)
  have w1: "scrapeSearchResult (isUrlBlocked world_blocked) (BLOCKLISTED_URL_MESSAGE world_blocked)
       (Inr 10) job_ok sr_a 60000 =
     (Inr \<lparr>Document.title = Some ''Serp title'', Document.description = Some ''Serp description'',
           Document.url = Some ''https://a.example'', markdown = None, serpResults = None,
           metadata = Some \<lparr>statusCode = 403,
                             Metadata.error = Some ''Could not scrape url: blocked''\<rparr>\<rparr>, [])"
    and w2: "scrapeSearchResult (isUrlBlocked world_blocked) (BLOCKLISTED_URL_MESSAGE world_blocked)
       (Inl (new_Error ''boom'')) job_ok sr_a 60000 = (Inl (new_Error ''boom''), [])"
    and w6: "searchHelper (world_blocked\<lparr>search_fn := \<lambda>a. []\<rparr>) legacy_of (Some ''q'') ''team''
       \<lparr>fetchPageContent = Some True\<rparr> (options_v0 (Some 5)) =
       searchHelper world_blocked legacy_of (Some ''q'') ''team'' \<lparr>fetchPageContent = Some True\<rparr>
       (options_v0 (Some 5))"
    and w7: "searchHelper world_blocked legacy_of (Some ''q'') ''team''
       \<lparr>fetchPageContent = Some False\<rparr> (options_v0 (Some 5)) =
     (Inr \<lparr>helper_result.success = True, helper_result.error = None,
           helper_result.data = Some (SerpData [sr_a]), returnCode = 200\<rparr>,
      [SearchCall (v0_search_args ''q'' ''team'' (options_v0 (Some 5))), BillTeam 1])"
    and w8: "searchController world_blocked (Inr (request_v1 5 None)) =
     ((200, \<lparr>SearchResponse.success = True, data = Some [serp_document sr_a],
              warning = None, SearchResponse.error = None\<rparr>),
      [SearchCall (v1_search_args (request_v1 5 None)), BillTeam 1])"
    using blocked_url_never_enqueued [where w = world_blocked and r = sr_a and p = 10 and je = job_ok
        and t = 60000 and e = "new_Error ''boom''" and tld = legacy_of and qry = "Some ''q''"
        and team = "''team''" and so = "options_v0 (Some 5)"
        and po = "\<lparr>fetchPageContent = Some True\<rparr>" and po' = "\<lparr>fetchPageContent = Some False\<rparr>"
        and body = "request_v1 5 None"] b t
    by (simp_all add: f s l u sa)
  have w345: "sr_a \<in> set (v0_results world_ok ''q'' ''team'' (options_v0 (Some 5)))"
    "\<not> isUrlBlocked world_ok ''https://a.example''"
    using blocked_url_never_enqueued [where w = world_ok and jid = "''job-0''"
        and u = "''https://a.example''" and pr = 10
        and parsed = "Inr (request_v1 5 (Some [''markdown'']))" and tld = legacy_of
        and auth = "Inr (AuthOk ''team'')" and credits = "Inr True" and ?body0.0 = request_v0
        and r' = sr_a and qs = "''q''" and team = "''team''" and so = "options_v0 (Some 5)"] m m0
    by (simp_all add: v0_results_ok)
  show ?thesis
    using b(1) w1 w2 m m0 w345 w6 helper_blocked_run t w7 w8
    by (simp add: s l)
qed

text \<open>
  Against claim C5 as stated: the legacy helper filters a blocked URL out of the results,
  and no rejection Document is produced for it.
\<close>

theorem v0_blocked_url_dropped:
  "isUrlBlocked world_blocked (SearchResult.url sr_a) \<and>
   search_fn world_blocked (v0_search_args ''q'' ''team'' (options_v0 (Some 5))) = [sr_a] \<and>
   searchController_v0 world_blocked legacy_of (Inr (AuthOk ''team'')) (Inr True) request_v0 =
     ((200, ResultBody \<lparr>helper_result.success = True,
                        helper_result.error = Some ''No search results found'',
                        helper_result.data = None, returnCode = 200\<rparr>),
      [SearchCall (v0_search_args ''q'' ''team'' (options_v0 (Some 5))), LogJob 0])"
proof -
  have r: "v0_results world_blocked ''q'' ''team'' (options_v0 (Some 5)) = []"
    by (simp add: v0_results_def world_blocked_def limit_results_def sr_a_def slice0_def)
  have h: "searchHelper world_blocked legacy_of (Some ''q'') ''team'' \<lparr>fetchPageContent = Some True\<rparr>
      (options_v0 (Some 5)) =
     (Inr \<lparr>helper_result.success = True, helper_result.error = Some ''No search results found'',
           helper_result.data = None, returnCode = 200\<rparr>,
      [SearchCall (v0_search_args ''q'' ''team'' (options_v0 (Some 5)))])"
    by (simp add: searchHelper_def Let_def truthy_def r)
  show ?thesis
    using h [unfolded options_v0_def]
    by (simp add: searchController_v0_def request_v0_def options_v0_def v0_num_docs_def
        world_blocked_def sr_a_def)
qed

section \<open>Removal from the queue\<close>

lemma scrape_waited_effects:
  assumes "priority = Inr p" "\<not> blocked (SearchResult.url r)"
    and "added je = Inr u" "waited je = Inr doc"
  shows "snd (scrapeSearchResult blocked msg priority je r t) =
           [AddScrapeJob (jobId je) (SearchResult.url r) p, WaitForJob (jobId je) t,
            RemoveJob (jobId je)]"
  using assms
  by (simp add: scrapeSearchResult_def scrapeSearchResult_try_def Let_def split: sum.splits)

lemma v0_all_waited:
  assumes q: "truthy qry" and scrape: "fetchPageContent po \<noteq> Some False"
    and rs: "rs = v0_results w (the qry) team so" "rs \<noteq> []"
    and prio: "getJobPriority w 0 = Inr p"
    and adds: "\<forall>i<length rs. \<exists>u. added (jobs w i) = Inr u"
    and waits: "\<forall>i<length rs. \<exists>d. waited (jobs w i) = Inr d"
  shows "snd (searchHelper w tld qry team po so) =
           SearchCall (v0_search_args (the qry) team so) #
           map (\<lambda>k. AddScrapeJob (jobId (jobs w k)) (SearchResult.url (rs ! k)) p) [0..<length rs] @
           map (\<lambda>i. WaitForJob (jobId (jobs w i)) 60000) [0..<length rs] @
           map (\<lambda>i. RemoveJob (jobId (jobs w i))) [0..<length rs]"
proof -
  have enq: "enqueue (jobs w) p 0 rs =
      (Inr (), map (\<lambda>k. AddScrapeJob (jobId (jobs w k)) (SearchResult.url (rs ! k)) p) [0..<length rs])"
    using enqueue_ok [of rs "jobs w" 0 p] adds by simp
  have "\<forall>x\<in>set (map (\<lambda>i. waited (jobs w i)) [0..<length rs]). \<exists>y. x = Inr y"
    using waits by auto
  from promise_all_Inr [where f = "race w 0", OF this]
  obtain ds where ds: "promise_all (race w 0) (map (\<lambda>i. waited (jobs w i)) [0..<length rs]) = Inr ds"
    and len: "length ds = length rs" by simp
  have ne: "ds \<noteq> []" using len rs by auto
  show ?thesis
    using q scrape rs prio enq ds ne
    by (simp add: searchHelper_def Let_def split: sum.splits)
qed

text \<open>
  Claim C6, as amended. In v1 a job is removed from the queue exactly when it was admitted
  and its wait returned a document, and the removal follows the wait; after a rejected wait
  the calls of the task are the admission and the wait only. In the legacy helper, when
  every job of the batch is admitted, all jobs are removed after all waits if every wait
  returned; if some wait is rejected no job is removed.
\<close>

theorem removal_only_after_success:
  "((RemoveJob jid \<in> set (snd (scrapeSearchResult blocked msg priority je r t))) =
      ((\<exists>p. priority = Inr p) \<and> \<not> blocked (SearchResult.url r) \<and> (\<exists>u. added je = Inr u) \<and>
       (\<exists>doc. waited je = Inr doc) \<and> jid = jobId je)) \<and>
   (priority = Inr p \<and> \<not> blocked (SearchResult.url r) \<and> added je = Inr u \<and> waited je = Inr doc \<longrightarrow>
      snd (scrapeSearchResult blocked msg priority je r t) =
        [AddScrapeJob (jobId je) (SearchResult.url r) p, WaitForJob (jobId je) t,
         RemoveJob (jobId je)]) \<and>
   (priority = Inr p \<and> \<not> blocked (SearchResult.url r) \<and> added je = Inr u \<and> waited je = Inl e \<longrightarrow>
      snd (scrapeSearchResult blocked msg priority je r t) =
        [AddScrapeJob (jobId je) (SearchResult.url r) p, WaitForJob (jobId je) t]) \<and>
   (truthy qry \<and> fetchPageContent po \<noteq> Some False \<and>
    rs = v0_results w (the qry) team so \<and> rs \<noteq> [] \<and> getJobPriority w 0 = Inr p0 \<and>
    (\<forall>i<length rs. \<exists>u. added (jobs w i) = Inr u) \<and>
    (\<forall>i<length rs. \<exists>d. waited (jobs w i) = Inr d) \<longrightarrow>
      snd (searchHelper w tld qry team po so) =
        SearchCall (v0_search_args (the qry) team so) #
        map (\<lambda>k. AddScrapeJob (jobId (jobs w k)) (SearchResult.url (rs ! k)) p0) [0..<length rs] @
        map (\<lambda>i. WaitForJob (jobId (jobs w i)) 60000) [0..<length rs] @
        map (\<lambda>i. RemoveJob (jobId (jobs w i))) [0..<length rs]) \<and>
   (truthy qry \<and> fetchPageContent po \<noteq> Some False \<and>
    rs = v0_results w (the qry) team so \<and> rs \<noteq> [] \<and> getJobPriority w 0 = Inr p0 \<and>
    (\<forall>i<length rs. \<exists>u. added (jobs w i) = Inr u) \<and>
    j < length rs \<and> (\<forall>i<j. \<exists>d. waited (jobs w i) = Inr d) \<and> waited (jobs w j) = Inl e0 \<longrightarrow>
      snd (searchHelper w tld qry team po so) =
        SearchCall (v0_search_args (the qry) team so) #
        map (\<lambda>k. AddScrapeJob (jobId (jobs w k)) (SearchResult.url (rs ! k)) p0) [0..<length rs] @
        map (\<lambda>i. WaitForJob (jobId (jobs w i)) 60000) [0..<length rs])"
proof (intro conjI impI)
  show "(RemoveJob jid \<in> set (snd (scrapeSearchResult blocked msg priority je r t))) =
      ((\<exists>p. priority = Inr p) \<and> \<not> blocked (SearchResult.url r) \<and> (\<exists>u. added je = Inr u) \<and>
       (\<exists>doc. waited je = Inr doc) \<and> jid = jobId je)"
    by (rule scrape_remove_iff)
next
  assume "priority = Inr p \<and> \<not> blocked (SearchResult.url r) \<and> added je = Inr u \<and> waited je = Inr doc"
  then show "snd (scrapeSearchResult blocked msg priority je r t) =
        [AddScrapeJob (jobId je) (SearchResult.url r) p, WaitForJob (jobId je) t,
         RemoveJob (jobId je)]"
    using scrape_waited_effects [of priority p blocked r je u doc msg t] by blast
next
  assume "priority = Inr p \<and> \<not> blocked (SearchResult.url r) \<and> added je = Inr u \<and> waited je = Inl e"
  then show "snd (scrapeSearchResult blocked msg priority je r t) =
        [AddScrapeJob (jobId je) (SearchResult.url r) p, WaitForJob (jobId je) t]"
    using scrape_wait_failed [of priority p blocked r je u e msg t] by simp
next
  assume "truthy qry \<and> fetchPageContent po \<noteq> Some False \<and>
    rs = v0_results w (the qry) team so \<and> rs \<noteq> [] \<and> getJobPriority w 0 = Inr p0 \<and>
    (\<forall>i<length rs. \<exists>u. added (jobs w i) = Inr u) \<and>
    (\<forall>i<length rs. \<exists>d. waited (jobs w i) = Inr d)"
  then show "snd (searchHelper w tld qry team po so) =
        SearchCall (v0_search_args (the qry) team so) #
        map (\<lambda>k. AddScrapeJob (jobId (jobs w k)) (SearchResult.url (rs ! k)) p0) [0..<length rs] @
        map (\<lambda>i. WaitForJob (jobId (jobs w i)) 60000) [0..<length rs] @
        map (\<lambda>i. RemoveJob (jobId (jobs w i))) [0..<length rs]"
    using v0_all_waited [of qry po rs w team so p0 tld] by blast
next
  assume "truthy qry \<and> fetchPageContent po \<noteq> Some False \<and>
    rs = v0_results w (the qry) team so \<and> rs \<noteq> [] \<and> getJobPriority w 0 = Inr p0 \<and>
    (\<forall>i<length rs. \<exists>u. added (jobs w i) = Inr u) \<and>
    j < length rs \<and> (\<forall>i<j. \<exists>d. waited (jobs w i) = Inr d) \<and> waited (jobs w j) = Inl e0"
  then obtain e' where "searchHelper w tld qry team po so =
           (Inl e', SearchCall (v0_search_args (the qry) team so) #
                   map (\<lambda>k. AddScrapeJob (jobId (jobs w k)) (SearchResult.url (rs ! k)) p0) [0..<length rs] @
                   map (\<lambda>i. WaitForJob (jobId (jobs w i)) 60000) [0..<length rs])"
    using v0_wait_rejects [where qry = qry and po = po and rs = rs and w = w and team = team
        and so = so and p = p0 and j = j and e = e0 and tld = tld] by blast
  then show "snd (searchHelper w tld qry team po so) =
        SearchCall (v0_search_args (the qry) team so) #
        map (\<lambda>k. AddScrapeJob (jobId (jobs w k)) (SearchResult.url (rs ! k)) p0) [0..<length rs] @
        map (\<lambda>i. WaitForJob (jobId (jobs w i)) 60000) [0..<length rs]"
    by simp
qed

lemma world_timeout_fields:
  "getJobPriority world_timeout = (\<lambda>i. Inr 10)" "isUrlBlocked world_timeout = (\<lambda>u. False)"
  "jobs world_timeout = (\<lambda>i. job_timeout)"
  by (simp_all add: world_timeout_def)

lemma job_timeout_fields:
  "jobId job_timeout = ''job-0''" "added job_timeout = Inr ()"
  "waited job_timeout = Inl (new_Error ''Job wait '')"
  by (simp_all add: job_timeout_def)

theorem removal_only_after_success_witness:
  "snd (scrapeSearchResult (\<lambda>u. False) ''blocked'' (Inr 10) job_ok sr_a 60000) =
     [AddScrapeJob ''job-0'' ''https://a.example'' 10, WaitForJob ''job-0'' 60000, RemoveJob ''job-0''] \<and>
   snd (scrapeSearchResult (\<lambda>u. False) ''blocked'' (Inr 10) job_timeout sr_a 60000) =
     [AddScrapeJob ''job-0'' ''https://a.example'' 10, WaitForJob ''job-0'' 60000] \<and>
   snd (searchHelper world_ok legacy_of (Some ''q'') ''team'' \<lparr>fetchPageContent = Some True\<rparr>
          (options_v0 (Some 5))) =
     [SearchCall (v0_search_args ''q'' ''team'' (options_v0 (Some 5))),
      AddScrapeJob ''job-0'' ''https://a.example'' 10, WaitForJob ''job-0'' 60000, RemoveJob ''job-0''] \<and>
   snd (searchHelper world_timeout legacy_of (Some ''q'') ''team'' \<lparr>fetchPageContent = Some True\<rparr>
          (options_v0 (Some 5))) =
     [SearchCall (v0_search_args ''q'' ''team'' (options_v0 (Some 5))),
      AddScrapeJob ''job-0'' ''https://a.example'' 10, WaitForJob ''job-0'' 60000]"
proof -
  have t: "truthy (Some ''q'')" by (simp add: truthy_def)
  have u: "SearchResult.url sr_a = ''https://a.example''" by (simp add: sr_a_def)
  show ?thesis
    using removal_only_after_success [of "''job-0''" "\<lambda>u. False" "''blocked''" "Inr 10" job_ok sr_a 60000
        10 "()" doc_scraped "new_Error ''Job wait ''" "Some ''q''" "\<lparr>fetchPageContent = Some True\<rparr>"
        "[sr_a]" world_ok "''team''" "options_v0 (Some 5)" 10 legacy_of 0 "new_Error ''Job wait ''"]
      removal_only_after_success [of "''job-0''" "\<lambda>u. False" "''blocked''" "Inr 10" job_timeout sr_a 60000
        10 "()" doc_scraped "new_Error ''Job wait ''" "Some ''q''" "\<lparr>fetchPageContent = Some True\<rparr>"
        "[sr_a]" world_timeout "''team''" "options_v0 (Some 5)" 10 legacy_of 0 "new_Error ''Job wait ''"]
    by (simp add: t u v0_results_ok v0_results_timeout world_ok_fields world_timeout_fields
        job_ok_fields job_timeout_fields)
qed

text \<open>
  Against claim C6 as stated: a v1 task that is admitted and times out issues no removal.
\<close>

theorem timed_out_job_not_removed:
  "added job_timeout = Inr () \<and>
   waited job_timeout = Inl (new_Error ''Job wait '') \<and>
   scrapeSearchResult (\<lambda>u. False) ''blocked'' (Inr 10) job_timeout sr_a 60000 =
     (Inr (error_document sr_a (new_Error ''Job wait '')),
      [AddScrapeJob ''job-0'' ''https://a.example'' 10, WaitForJob ''job-0'' 60000])"
  by (simp add: scrapeSearchResult_def scrapeSearchResult_try_def Let_def job_timeout_def sr_a_def)

section \<open>The number of documents returned\<close>

lemma limit_results_length: "0 \<le> L \<Longrightarrow> int (length (limit_results xs L)) \<le> L"
  by (auto simp: limit_results_def slice0_def)

lemma v1_at_most_limit:
  assumes "0 \<le> SearchRequest.limit body"
  shows "case SearchResponse.data (snd (fst (searchController w (Inr body)))) of
           None \<Rightarrow> True
         | Some ds \<Rightarrow> int (length ds) \<le> SearchRequest.limit body"
proof -
  let ?rs = "v1_results w body"
  let ?outs = "scrape_all w (SearchRequest.timeout body) ?rs"
  have len: "int (length ?rs) \<le> SearchRequest.limit body"
    unfolding v1_results_def using assms by (rule limit_results_length)
  have docs: "int (length docs) \<le> SearchRequest.limit body \<and>
      int (length (filter has_content docs)) \<le> SearchRequest.limit body"
    if "promise_all (race w 0) (map fst ?outs) = Inr docs" for docs
  proof -
    from promise_all_length [OF that] have "length docs = length ?rs"
      by (simp add: scrape_all_def)
    moreover have "length (filter has_content docs) \<le> length docs" by simp
    ultimately show ?thesis using len by linarith
  qed
  show ?thesis
    using len docs
    by (auto simp: searchController_def v1_catch_def Let_def split: sum.splits)
qed

text \<open>
  Claim C3 fails on the code: in the legacy helper the search-only path
  (\<open>fetchPageContent = false\<close>) returns before the slice. With a limit of 2 the helper
  requests 3 results and returns all three.
\<close>

theorem v0_fast_path_exceeds_limit:
  "SearchOptions.limit (options_v0 (Some 2)) = Some 2 \<and>
   fst (searchHelper world_three legacy_of (Some ''q'') ''team'' \<lparr>fetchPageContent = Some False\<rparr>
          (options_v0 (Some 2))) =
     Inr \<lparr>helper_result.success = True, helper_result.error = None,
          helper_result.data = Some (SerpData [sr_a, sr_b, sr_c]), returnCode = 200\<rparr>"
  by (simp add: searchHelper_def Let_def truthy_def world_three_def options_v0_def)

end
